theory Spec2Isabelle
  imports Complex_Main "HOL-Library.Word"
begin

section \<open>JavaScript values\<close>

text \<open>
  JavaScript numbers are modelled as real numbers: rounding to double or to 32-bit floats
  is not modelled. Reading an array beyond its length yields \<open>undefined\<close> in JavaScript,
  which is a value of its own here.
\<close>

datatype jsval = Num real | Undefined

definition js_index :: "real list \<Rightarrow> nat \<Rightarrow> jsval" where
  "js_index xs i = (if i < length xs then Num (xs ! i) else Undefined)"

section \<open>Geometry Provider\<close>

subsection \<open>The literal tables of the cube files\<close>

text \<open>
  \<open>colors\<close> and \<open>boxIndices\<close> are declared twice in \<open>src/unnamed/part_000\<close>
  (lines 238--296 in the two-cube file, lines 368--426 in the single-cube file) with the
  same entries in the same order, so one constant stands for both declarations.
\<close>

definition colors :: "real list" where
  "colors =
    [0.5, 0.5, 0.5,
     0.5, 0.5, 0.5,
     0.5, 0.5, 0.5,
     0.5, 0.5, 0.5,

     0.75, 0.25, 0.5,
     0.75, 0.25, 0.5,
     0.75, 0.25, 0.5,
     0.75, 0.25, 0.5,

     0.25, 0.25, 0.75,
     0.25, 0.25, 0.75,
     0.25, 0.25, 0.75,
     0.25, 0.25, 0.75,

     1.0, 0.0, 0.15,
     1.0, 0.0, 0.15,
     1.0, 0.0, 0.15,
     1.0, 0.0, 0.15,

     0.0, 1.0, 0.15,
     0.0, 1.0, 0.15,
     0.0, 1.0, 0.15,
     0.0, 1.0, 0.15,

     0.5, 0.5, 1.0,
     0.5, 0.5, 1.0,
     0.5, 0.5, 1.0,
     0.5, 0.5, 1.0]"

definition boxIndices :: "nat list" where
  "boxIndices =
    [0, 1, 2,
     0, 2, 3,

     5, 4, 6,
     6, 4, 7,

     8, 9, 10,
     8, 10, 11,

     13, 12, 14,
     15, 14, 12,

     16, 17, 18,
     16, 18, 19,

     21, 20, 22,
     22, 20, 23]"

text \<open>The position table of the two-cube file (lines 199--236): a cube of side 2.\<close>

definition boxVertices :: "real list" where
  "boxVertices =
    [-1.0, 1.0, -1.0,
     -1.0, 1.0, 1.0,
     1.0, 1.0, 1.0,
     1.0, 1.0, -1.0,

     -1.0, 1.0, 1.0,
     -1.0, -1.0, 1.0,
     -1.0, -1.0, -1.0,
     -1.0, 1.0, -1.0,

     1.0, 1.0, 1.0,
     1.0, -1.0, 1.0,
     1.0, -1.0, -1.0,
     1.0, 1.0, -1.0,

     1.0, 1.0, 1.0,
     1.0, -1.0, 1.0,
     -1.0, -1.0, 1.0,
     -1.0, 1.0, 1.0,

     1.0, 1.0, -1.0,
     1.0, -1.0, -1.0,
     -1.0, -1.0, -1.0,
     -1.0, 1.0, -1.0,

     -1.0, -1.0, -1.0,
     -1.0, -1.0, 1.0,
     1.0, -1.0, 1.0,
     1.0, -1.0, -1.0]"

subsection \<open>generateCubeVertices (single-cube file, lines 494--551)\<close>

text \<open>The local table \<open>vertices\<close> of \<open>generateCubeVertices\<close>, for a given \<open>halfLength\<close>.\<close>

definition vertices :: "real \<Rightarrow> real list" where
  "vertices halfLength =
    [- halfLength, halfLength, - halfLength,
     - halfLength, halfLength, halfLength,
     halfLength, halfLength, halfLength,
     halfLength, halfLength, - halfLength,

     - halfLength, halfLength, halfLength,
     - halfLength, - halfLength, halfLength,
     - halfLength, - halfLength, - halfLength,
     - halfLength, halfLength, - halfLength,

     halfLength, halfLength, halfLength,
     halfLength, - halfLength, halfLength,
     halfLength, - halfLength, - halfLength,
     halfLength, halfLength, - halfLength,

     halfLength, halfLength, halfLength,
     halfLength, - halfLength, halfLength,
     - halfLength, - halfLength, halfLength,
     - halfLength, halfLength, halfLength,

     halfLength, halfLength, - halfLength,
     halfLength, - halfLength, - halfLength,
     - halfLength, - halfLength, - halfLength,
     - halfLength, halfLength, - halfLength,

     - halfLength, - halfLength, - halfLength,
     - halfLength, - halfLength, halfLength,
     halfLength, - halfLength, halfLength,
     halfLength, - halfLength, - halfLength]"

text \<open>
  The \<open>for\<close> loop of \<open>generateCubeVertices\<close>: \<open>i\<close> runs from its start value up to
  \<open>vertexCount\<close>, and each round pushes six values onto \<open>coloredVertices\<close>.
\<close>

function push_loop ::
  "nat \<Rightarrow> nat \<Rightarrow> real list \<Rightarrow> real list \<Rightarrow> jsval list \<Rightarrow> jsval list" where
  "push_loop i vertexCount vs vertexColors coloredVertices =
    (if i < vertexCount then
       push_loop (i + 1) vertexCount vs vertexColors
         (coloredVertices @
           [js_index vs (i * 3),
            js_index vs (i * 3 + 1),
            js_index vs (i * 3 + 2),
            js_index vertexColors (i * 3),
            js_index vertexColors (i * 3 + 1),
            js_index vertexColors (i * 3 + 2)])
     else coloredVertices)"
  by pat_completeness auto
termination
  by (relation "measure (\<lambda>(i, vertexCount, _). vertexCount - i)") auto

declare push_loop.simps [simp del]

text \<open>
  \<open>vertexCount\<close> is \<open>vertices.length / 3\<close>; the table has 72 entries, so the
  quotient is the whole number 24 and integer division gives the same value.
\<close>

definition generateCubeVertices :: "real \<Rightarrow> real list \<Rightarrow> jsval list" where
  "generateCubeVertices sideLength vertexColors =
    (let halfLength = sideLength / 2;
         vs = vertices halfLength;
         vertexCount = length vs div 3
     in push_loop 0 vertexCount vs vertexColors [])"

subsection \<open>Vocabulary for the properties of the geometry\<close>

text \<open>
  Vertex \<open>v\<close> of a colour table owns the entries \<open>3v, 3v+1, 3v+2\<close>; face \<open>f\<close> of the
  cube owns the vertices \<open>4f \<dots> 4f+3\<close> (the tables list the faces Top, Left, Right,
  Front, Back, Bottom, four vertices each), and its colour is read at its first vertex.
\<close>

definition vertex_color :: "real list \<Rightarrow> nat \<Rightarrow> real \<times> real \<times> real" where
  "vertex_color cs v = (cs ! (3 * v), cs ! (3 * v + 1), cs ! (3 * v + 2))"

definition face_color :: "real list \<Rightarrow> nat \<Rightarrow> real \<times> real \<times> real" where
  "face_color cs f = vertex_color cs (4 * f)"

section \<open>The host environment\<close>

text \<open>
  The programs talk to three things outside the repository: the document (which holds
  the canvas), the console and alert box, and the WebGL context. Their answers
  are the fields of an \<open>env\<close>; what the programs do to them is recorded in a \<open>host\<close> state:
  the trace of calls in the order they were made, and the part of the WebGL state the
  properties below read.
\<close>

datatype js_error = TypeError

text \<open>
  A canvas element: the size of its drawing buffer (\<open>width\<close>, \<open>height\<close>), the size of
  its box on the page (\<open>clientWidth\<close>, \<open>clientHeight\<close>), and whether
  \<open>getContext("webgl")\<close> yields a context (otherwise it yields \<open>null\<close>).
\<close>

record canvas =
  width :: real
  height :: real
  clientWidth :: real
  clientHeight :: real
  webgl :: bool

text \<open>
  Each file declares two shader texts under the names \<open>vertexShaderTxt\<close> and
  \<open>fragmentShaderTxt\<close>. The programs only hand them to \<open>shaderSource\<close>; their contents
  are not modelled.
\<close>

datatype shader_text = vertexShaderTxt | fragmentShaderTxt

datatype shader_type = VERTEX_SHADER | FRAGMENT_SHADER

text \<open>
  WebGL objects (shaders, programs, buffers) are named by handles, numbered in the order
  of their creation. The environment answers \<open>document.getElementById\<close>, and for each
  shader object whether its compilation succeeded (\<open>COMPILE_STATUS\<close>) and what its
  info log says.
\<close>

type_synonym handle = nat

record env =
  getElementById :: "string \<Rightarrow> canvas option"
  compile_status :: "handle option \<Rightarrow> bool"
  shader_info_log :: "handle option \<Rightarrow> string"

type_synonym mat4 = "real list"

datatype buffer_bit = COLOR_BUFFER_BIT | DEPTH_BUFFER_BIT
datatype capability = DEPTH_TEST | CULL_FACE
datatype buffer_target = ARRAY_BUFFER | ELEMENT_ARRAY_BUFFER
datatype usage = STATIC_DRAW
datatype component_type = FLOAT
datatype index_type = UNSIGNED_SHORT
datatype mode = TRIANGLES

text \<open>
  Typed arrays. \<open>new Float32Array(xs)\<close> keeps the entries of \<open>xs\<close> (an \<open>Undefined\<close>
  entry stands for the NaN it is stored as); \<open>new Uint16Array(xs)\<close> cuts the
  fraction of each entry off and reduces it modulo \<open>2^16\<close>.
\<close>

datatype typed_array = Float32Array "jsval list" | Uint16Array "16 word list"

definition new_Float32Array :: "jsval list \<Rightarrow> typed_array" where
  "new_Float32Array xs = Float32Array xs"

definition ToUint16 :: "real \<Rightarrow> 16 word" where
  "ToUint16 x = word_of_int (if x < 0 then - \<lfloor>- x\<rfloor> else \<lfloor>x\<rfloor>)"

definition new_Uint16Array :: "real list \<Rightarrow> typed_array" where
  "new_Uint16Array xs = Uint16Array (map ToUint16 xs)"

definition BYTES_PER_ELEMENT :: nat where
  "BYTES_PER_ELEMENT = 4"

text \<open>
  Attribute and uniform locations are the answers of \<open>getAttribLocation\<close> and
  \<open>getUniformLocation\<close>; they are kept symbolic, as the program and the name asked for.
\<close>

datatype attrib_location = AttribLocation handle string
datatype uniform_location = UniformLocation handle string

datatype gl_call =
    ClearColor "real list"
  | Clear "buffer_bit list"
  | Enable capability
  | CreateShader "shader_type option"
  | ShaderSource "handle option" shader_text
  | CompileShader "handle option"
  | GetShaderParameter_COMPILE_STATUS "handle option"
  | GetShaderInfoLog "handle option"
  | CreateProgram
  | AttachShader handle "handle option"
  | LinkProgram handle
  | DetachShader handle "handle option"
  | ValidateProgram handle
  | UseProgram handle
  | CreateBuffer
  | BindBuffer buffer_target handle
  | BufferData buffer_target typed_array usage
  | GetAttribLocation handle string
  | VertexAttribPointer attrib_location nat component_type bool nat nat
  | EnableVertexAttribArray attrib_location
  | GetUniformLocation handle string
  | UniformMatrix4fv uniform_location bool mat4
  | DrawArrays mode nat nat
  | DrawElements mode nat index_type nat

datatype log_arg = LogCanvas "canvas option" | LogText string

datatype event =
    ConsoleLog log_arg
  | Alert string
  | GL gl_call
  | RequestAnimationFrame
  | Uncaught js_error

text \<open>What \<open>vertexAttribPointer\<close> records for an attribute.\<close>

record attrib_pointer =
  ap_size :: nat
  ap_type :: component_type
  ap_normalized :: bool
  ap_stride :: nat
  ap_offset :: nat
  ap_buffer :: "handle option"

record host =
  events :: "event list"
  objects :: nat
  array_buffer :: "handle option"
  element_array_buffer :: "handle option"
  buffer_store :: "handle \<Rightarrow> typed_array option"
  attrib_pointers :: "attrib_location \<Rightarrow> attrib_pointer option"
  uniform_store :: "uniform_location \<Rightarrow> mat4 option"
  pending_frames :: nat

definition host0 :: host where
  "host0 = \<lparr>events = [], objects = 0, array_buffer = None, element_array_buffer = None,
     buffer_store = (\<lambda>_. None), attrib_pointers = (\<lambda>_. None),
     uniform_store = (\<lambda>_. None), pending_frames = 0\<rparr>"

text \<open>
  The effect of a call on the WebGL state, as far as the properties below read it:
  \<open>bindBuffer\<close> sets the binding of its target, \<open>bufferData\<close> fills the buffer bound to
  its target, \<open>vertexAttribPointer\<close> records its arguments together with the buffer
  bound to \<open>ARRAY_BUFFER\<close> at that moment, \<open>uniformMatrix4fv\<close> stores the matrix.
\<close>

fun gl_effect :: "gl_call \<Rightarrow> host \<Rightarrow> host" where
  "gl_effect (BindBuffer ARRAY_BUFFER b) h = h\<lparr>array_buffer := Some b\<rparr>"
| "gl_effect (BindBuffer ELEMENT_ARRAY_BUFFER b) h = h\<lparr>element_array_buffer := Some b\<rparr>"
| "gl_effect (BufferData ARRAY_BUFFER d u) h =
     (case array_buffer h of
        None \<Rightarrow> h
      | Some b \<Rightarrow> h\<lparr>buffer_store := (buffer_store h)(b \<mapsto> d)\<rparr>)"
| "gl_effect (BufferData ELEMENT_ARRAY_BUFFER d u) h =
     (case element_array_buffer h of
        None \<Rightarrow> h
      | Some b \<Rightarrow> h\<lparr>buffer_store := (buffer_store h)(b \<mapsto> d)\<rparr>)"
| "gl_effect (VertexAttribPointer loc n t normalized stride ofs) h =
     h\<lparr>attrib_pointers := (attrib_pointers h)(loc \<mapsto>
        \<lparr>ap_size = n, ap_type = t, ap_normalized = normalized, ap_stride = stride,
         ap_offset = ofs, ap_buffer = array_buffer h\<rparr>)\<rparr>"
| "gl_effect (UniformMatrix4fv loc tr m) h =
     h\<lparr>uniform_store := (uniform_store h)(loc \<mapsto> m)\<rparr>"
| "gl_effect _ h = h"

text \<open>A call on the context: it is appended to the trace and takes its effect.\<close>

definition gl :: "gl_call \<Rightarrow> host \<Rightarrow> host" where
  "gl c h = gl_effect c (h\<lparr>events := events h @ [GL c]\<rparr>)"

text \<open>Calls that create an object answer with a fresh handle.\<close>

definition gl_create :: "gl_call \<Rightarrow> host \<Rightarrow> handle \<times> host" where
  "gl_create c h = (objects h, gl c (h\<lparr>objects := objects h + 1\<rparr>))"

text \<open>\<open>createShader\<close> answers \<open>null\<close> when its argument is not a shader type.\<close>

definition gl_createShader :: "shader_type option \<Rightarrow> host \<Rightarrow> handle option \<times> host" where
  "gl_createShader t h =
     (case t of
        None \<Rightarrow> (None, gl (CreateShader None) h)
      | Some _ \<Rightarrow> (let (s, h) = gl_create (CreateShader t) h in (Some s, h)))"

definition gl_getAttribLocation :: "handle \<Rightarrow> string \<Rightarrow> host \<Rightarrow> attrib_location \<times> host" where
  "gl_getAttribLocation p name h = (AttribLocation p name, gl (GetAttribLocation p name) h)"

definition gl_getUniformLocation :: "handle \<Rightarrow> string \<Rightarrow> host \<Rightarrow> uniform_location \<times> host" where
  "gl_getUniformLocation p name h = (UniformLocation p name, gl (GetUniformLocation p name) h)"

definition console_log :: "log_arg \<Rightarrow> host \<Rightarrow> host" where
  "console_log a h = h\<lparr>events := events h @ [ConsoleLog a]\<rparr>"

definition alert :: "string \<Rightarrow> host \<Rightarrow> host" where
  "alert msg h = h\<lparr>events := events h @ [Alert msg]\<rparr>"

definition requestAnimationFrame :: "host \<Rightarrow> host" where
  "requestAnimationFrame h =
     h\<lparr>events := events h @ [RequestAnimationFrame], pending_frames := pending_frames h + 1\<rparr>"

section \<open>The glMatrix library\<close>

text \<open>
  Modelled from the spec: the glMatrix library (\<open>glMatrix.toRadian\<close> and \<open>mat4.create\<close>,
  \<open>lookAt\<close>, \<open>perspective\<close>, \<open>fromRotation\<close>, \<open>fromTranslation\<close>, \<open>mul\<close>, \<open>rotate\<close>)
  is called by the cube files and is not among the source files. The spec describes the
  matrices as 4x4, column-major, built by a look-at construction (eye, target, up), a
  perspective construction (field of view, aspect ratio, near, far) and a rotation
  about a fixed axis optionally composed with a translation. The definitions below are
  these constructions as the library computes them, over the reals; a function that
  writes its result into its first argument \<open>out\<close> returns the new contents of \<open>out\<close>.
  \<open>perspective\<close> is given for a finite far plane, which is what both callers pass.
\<close>

definition EPSILON :: real where
  "EPSILON = 0.000001"

definition toRadian :: "real \<Rightarrow> real" where
  "toRadian a = a * (pi / 180)"

definition hypot :: "real \<Rightarrow> real \<Rightarrow> real \<Rightarrow> real" where
  "hypot x y z = sqrt (x * x + y * y + z * z)"

definition mat4_create :: mat4 where
  "mat4_create =
    [1, 0, 0, 0,
     0, 1, 0, 0,
     0, 0, 1, 0,
     0, 0, 0, 1]"

definition mat4_fromTranslation :: "mat4 \<Rightarrow> real list \<Rightarrow> mat4" where
  "mat4_fromTranslation out v =
    [1, 0, 0, 0,
     0, 1, 0, 0,
     0, 0, 1, 0,
     v ! 0, v ! 1, v ! 2, 1]"

text \<open>An axis shorter than \<open>EPSILON\<close> makes the library return \<open>null\<close> and leave \<open>out\<close> as it is.\<close>

definition mat4_fromRotation :: "mat4 \<Rightarrow> real \<Rightarrow> real list \<Rightarrow> mat4" where
  "mat4_fromRotation out rad axis =
    (let x = axis ! 0; y = axis ! 1; z = axis ! 2;
         len = hypot x y z
     in if len < EPSILON then out
        else
          let len = 1 / len;
              x = x * len; y = y * len; z = z * len;
              s = sin rad; c = cos rad; t = 1 - c
          in [x * x * t + c, y * x * t + z * s, z * x * t - y * s, 0,
              x * y * t - z * s, y * y * t + c, z * y * t + x * s, 0,
              x * z * t + y * s, y * z * t - x * s, z * z * t + c, 0,
              0, 0, 0, 1])"

text \<open>One column of a product: the column \<open>(b0, b1, b2, b3)\<close> of the right factor.\<close>

definition mul_column :: "mat4 \<Rightarrow> real \<Rightarrow> real \<Rightarrow> real \<Rightarrow> real \<Rightarrow> real list" where
  "mul_column a b0 b1 b2 b3 =
    [b0 * a ! 0 + b1 * a ! 4 + b2 * a ! 8 + b3 * a ! 12,
     b0 * a ! 1 + b1 * a ! 5 + b2 * a ! 9 + b3 * a ! 13,
     b0 * a ! 2 + b1 * a ! 6 + b2 * a ! 10 + b3 * a ! 14,
     b0 * a ! 3 + b1 * a ! 7 + b2 * a ! 11 + b3 * a ! 15]"

definition mat4_mul :: "mat4 \<Rightarrow> mat4 \<Rightarrow> mat4" where
  "mat4_mul a b =
    mul_column a (b ! 0) (b ! 1) (b ! 2) (b ! 3) @
    mul_column a (b ! 4) (b ! 5) (b ! 6) (b ! 7) @
    mul_column a (b ! 8) (b ! 9) (b ! 10) (b ! 11) @
    mul_column a (b ! 12) (b ! 13) (b ! 14) (b ! 15)"

text \<open>\<open>rotate\<close> multiplies \<open>a\<close> by the rotation and copies the last column of \<open>a\<close>.\<close>

definition mat4_rotate :: "mat4 \<Rightarrow> mat4 \<Rightarrow> real \<Rightarrow> real list \<Rightarrow> mat4" where
  "mat4_rotate out a rad axis =
    (let x = axis ! 0; y = axis ! 1; z = axis ! 2;
         len = hypot x y z
     in if len < EPSILON then out
        else
          let len = 1 / len;
              x = x * len; y = y * len; z = z * len;
              s = sin rad; c = cos rad; t = 1 - c;
              b00 = x * x * t + c; b01 = y * x * t + z * s; b02 = z * x * t - y * s;
              b10 = x * y * t - z * s; b11 = y * y * t + c; b12 = z * y * t + x * s;
              b20 = x * z * t + y * s; b21 = y * z * t - x * s; b22 = z * z * t + c
          in [a ! 0 * b00 + a ! 4 * b01 + a ! 8 * b02,
              a ! 1 * b00 + a ! 5 * b01 + a ! 9 * b02,
              a ! 2 * b00 + a ! 6 * b01 + a ! 10 * b02,
              a ! 3 * b00 + a ! 7 * b01 + a ! 11 * b02,
              a ! 0 * b10 + a ! 4 * b11 + a ! 8 * b12,
              a ! 1 * b10 + a ! 5 * b11 + a ! 9 * b12,
              a ! 2 * b10 + a ! 6 * b11 + a ! 10 * b12,
              a ! 3 * b10 + a ! 7 * b11 + a ! 11 * b12,
              a ! 0 * b20 + a ! 4 * b21 + a ! 8 * b22,
              a ! 1 * b20 + a ! 5 * b21 + a ! 9 * b22,
              a ! 2 * b20 + a ! 6 * b21 + a ! 10 * b22,
              a ! 3 * b20 + a ! 7 * b21 + a ! 11 * b22,
              a ! 12, a ! 13, a ! 14, a ! 15])"

text \<open>A vector scaled to length one, or the zero vector when its length is zero.\<close>

definition normalize3 :: "real \<Rightarrow> real \<Rightarrow> real \<Rightarrow> real \<times> real \<times> real" where
  "normalize3 x y z =
    (let len = hypot x y z
     in if len = 0 then (0, 0, 0) else (x * (1 / len), y * (1 / len), z * (1 / len)))"

definition mat4_lookAt :: "mat4 \<Rightarrow> real list \<Rightarrow> real list \<Rightarrow> real list \<Rightarrow> mat4" where
  "mat4_lookAt out eye center up =
    (let eyex = eye ! 0; eyey = eye ! 1; eyez = eye ! 2;
         upx = up ! 0; upy = up ! 1; upz = up ! 2;
         centerx = center ! 0; centery = center ! 1; centerz = center ! 2
     in if \<bar>eyex - centerx\<bar> < EPSILON \<and> \<bar>eyey - centery\<bar> < EPSILON \<and>
           \<bar>eyez - centerz\<bar> < EPSILON
        then mat4_create
        else
          let z0 = eyex - centerx; z1 = eyey - centery; z2 = eyez - centerz;
              len = 1 / hypot z0 z1 z2;
              z0 = z0 * len; z1 = z1 * len; z2 = z2 * len;
              (x0, x1, x2) =
                normalize3 (upy * z2 - upz * z1) (upz * z0 - upx * z2) (upx * z1 - upy * z0);
              (y0, y1, y2) =
                normalize3 (z1 * x2 - z2 * x1) (z2 * x0 - z0 * x2) (z0 * x1 - z1 * x0)
          in [x0, y0, z0, 0,
              x1, y1, z1, 0,
              x2, y2, z2, 0,
              - (x0 * eyex + x1 * eyey + x2 * eyez),
              - (y0 * eyex + y1 * eyey + y2 * eyez),
              - (z0 * eyex + z1 * eyey + z2 * eyez),
              1])"

definition mat4_perspective :: "mat4 \<Rightarrow> real \<Rightarrow> real \<Rightarrow> real \<Rightarrow> real \<Rightarrow> mat4" where
  "mat4_perspective out fovy aspect near far =
    (let f = 1 / tan (fovy / 2);
         nf = 1 / (near - far)
     in [f / aspect, 0, 0, 0,
         0, f, 0, 0,
         0, 0, (far + near) * nf, - 1,
         0, 0, 2 * far * near * nf, 0])"

section \<open>The triangle program (src/script2.js)\<close>

definition triangleVert :: "real list" where
  "triangleVert =
    [0.5, 0.5, 1.0, 0.0, 0.0,
     -0.5, -0.5, 0.0, 1.0, 0.0,
     0.5, -0.5, 0.0, 0.0, 1.0,
     0.5, 0.5, 1.0, 0.0, 0.0,
     -0.5, -0.5, 0.0, 1.0, 0.0,
     -0.5, 0.5, 0.0, 0.0, 1.0]"

text \<open>
  \<open>compileShader\<close> followed by the check of \<open>COMPILE_STATUS\<close>, as the triangle file
  and the single-cube file write it for each of their two shaders.
\<close>

definition compile_and_check :: "env \<Rightarrow> handle option \<Rightarrow> host \<Rightarrow> host" where
  "compile_and_check e shader h =
    (let h = gl (CompileShader shader) h;
         h = gl (GetShaderParameter_COMPILE_STATUS shader) h
     in if \<not> compile_status e shader
        then console_log (LogText (shader_info_log e shader)) (gl (GetShaderInfoLog shader) h)
        else h)"

text \<open>
  A statement that calls a method on \<open>null\<close> raises a TypeError, which ends the
  function: \<open>canvas.getContext\<close> when the element is missing, and the first call on
  \<open>gl\<close> when the canvas gave no context.
\<close>

definition Triangle :: "env \<Rightarrow> (js_error + unit) \<times> host" where
  "Triangle e =
    (let h = host0;
         canvas = getElementById e ''main-canvas'';
         h = console_log (LogCanvas canvas) h
     in case canvas of
          None \<Rightarrow> (Inl TypeError, h)
        | Some cv \<Rightarrow>
            let has_gl = webgl cv;
                h = (if \<not> has_gl then alert ''no webgl'' h else h)
            in if \<not> has_gl then (Inl TypeError, h)
               else
                 let h = gl (ClearColor [0.5, 0.5, 0.9, 1.0]) h;
                     h = gl (Clear [COLOR_BUFFER_BIT]) h;
                     (vertexShader, h) = gl_createShader (Some VERTEX_SHADER) h;
                     (fragmentShader, h) = gl_createShader (Some FRAGMENT_SHADER) h;
                     h = gl (ShaderSource vertexShader vertexShaderTxt) h;
                     h = gl (ShaderSource fragmentShader fragmentShaderTxt) h;
                     h = compile_and_check e vertexShader h;
                     h = compile_and_check e fragmentShader h;
                     (program, h) = gl_create CreateProgram h;
                     h = gl (AttachShader program vertexShader) h;
                     h = gl (AttachShader program fragmentShader) h;
                     h = gl (LinkProgram program) h;
                     h = gl (DetachShader program vertexShader) h;
                     h = gl (DetachShader program fragmentShader) h;
                     h = gl (ValidateProgram program) h;
                     (triangleVertexBufferObject, h) = gl_create CreateBuffer h;
                     h = gl (BindBuffer ARRAY_BUFFER triangleVertexBufferObject) h;
                     h = gl (BufferData ARRAY_BUFFER
                           (new_Float32Array (map Num triangleVert)) STATIC_DRAW) h;
                     (posAttrLocation, h) = gl_getAttribLocation program ''vertPosition'' h;
                     (colorAttrLocation, h) = gl_getAttribLocation program ''vertColor'' h;
                     h = gl (VertexAttribPointer posAttrLocation 2 FLOAT False
                           (5 * BYTES_PER_ELEMENT) 0) h;
                     h = gl (VertexAttribPointer colorAttrLocation 3 FLOAT False
                           (5 * BYTES_PER_ELEMENT) (2 * BYTES_PER_ELEMENT)) h;
                     h = gl (EnableVertexAttribArray posAttrLocation) h;
                     h = gl (EnableVertexAttribArray colorAttrLocation) h;
                     h = gl (UseProgram program) h;
                     h = gl (DrawArrays TRIANGLES 0 6) h
                 in (Inr (), h))"

section \<open>The two-cube program: class World (src/unnamed/part_000, lines 1--299)\<close>

text \<open>
  The private fields of a \<open>World\<close>. A \<open>World\<close> exists only after its constructor has
  called \<open>createProgram\<close> on the context, so its \<open>#gl\<close> is never \<open>null\<close> and is not
  a field here.
\<close>

record World =
  the_canvas :: canvas
  backgroundColor :: "real list"
  program :: handle

definition prepareBackGround :: "World \<Rightarrow> host \<Rightarrow> host" where
  "prepareBackGround w h =
    (let h = gl (ClearColor (backgroundColor w @ [1.0])) h;
         h = gl (Clear [COLOR_BUFFER_BIT, DEPTH_BUFFER_BIT]) h;
         h = gl (Enable DEPTH_TEST) h;
         h = gl (Enable CULL_FACE) h
     in h)"

definition World_constructor ::
  "env \<Rightarrow> string \<Rightarrow> real list \<Rightarrow> host \<Rightarrow> (js_error + World) \<times> host" where
  "World_constructor e elementId bg h =
    (case getElementById e elementId of
       None \<Rightarrow> (Inl TypeError, h)
     | Some cv \<Rightarrow>
         if \<not> webgl cv then (Inl TypeError, h)
         else
           let (p, h) = gl_create CreateProgram h;
               w = \<lparr>the_canvas = cv, backgroundColor = bg, program = p\<rparr>;
               h = prepareBackGround w h
           in (Inr w, h))"

definition loadShader :: "World \<Rightarrow> shader_text \<Rightarrow> string \<Rightarrow> host \<Rightarrow> host" where
  "loadShader w shaderTxt type h =
    (let shader_type =
           (if type = ''VERTEX'' then Some VERTEX_SHADER
            else if type = ''FRAGMENT'' then Some FRAGMENT_SHADER
            else None);
         (shader, h) = gl_createShader shader_type h;
         h = gl (ShaderSource shader shaderTxt) h;
         h = gl (CompileShader shader) h;
         h = gl (AttachShader (program w) shader) h
     in h)"

definition prepareShaders :: "World \<Rightarrow> host \<Rightarrow> host" where
  "prepareShaders w h =
    (let h = loadShader w vertexShaderTxt ''VERTEX'' h;
         h = loadShader w fragmentShaderTxt ''FRAGMENT'' h;
         h = gl (LinkProgram (program w)) h
     in h)"

text \<open>The first parameter of \<open>prepareBuffer\<close> is called \<open>type\<close> in the source; it is the data.\<close>

definition prepareBuffer :: "real list \<Rightarrow> string \<Rightarrow> host \<Rightarrow> host" where
  "prepareBuffer type name h =
    (let (bufferObject, h) = gl_create CreateBuffer h;
         h = (if name = ''VERTEX'' \<or> name = ''COLOR''
              then gl (BufferData ARRAY_BUFFER (new_Float32Array (map Num type)) STATIC_DRAW)
                     (gl (BindBuffer ARRAY_BUFFER bufferObject) h)
              else h);
         h = (if name = ''INDICE''
              then gl (BufferData ELEMENT_ARRAY_BUFFER (new_Uint16Array type) STATIC_DRAW)
                     (gl (BindBuffer ELEMENT_ARRAY_BUFFER bufferObject) h)
              else h)
     in h)"

text \<open>The optional parameter \<open>indices = null\<close> is an \<open>option\<close>: \<open>None\<close> is \<open>null\<close>.\<close>

definition loadObject ::
  "World \<Rightarrow> real list \<Rightarrow> real list \<Rightarrow> real list option \<Rightarrow> host \<Rightarrow> host" where
  "loadObject w vs cs indices h =
    (let h = prepareBuffer vs ''VERTEX'' h;
         h = (case indices of None \<Rightarrow> h | Some ix \<Rightarrow> prepareBuffer ix ''INDICE'' h);
         (posAttrLocation, h) = gl_getAttribLocation (program w) ''vertPosition'' h;
         h = gl (VertexAttribPointer posAttrLocation 3 FLOAT False
               (3 * BYTES_PER_ELEMENT) 0) h;
         h = gl (EnableVertexAttribArray posAttrLocation) h;
         h = prepareBuffer cs ''COLOR'' h;
         (colorAttrLocation, h) = gl_getAttribLocation (program w) ''vertColor'' h;
         h = gl (VertexAttribPointer colorAttrLocation 3 FLOAT False
               (3 * BYTES_PER_ELEMENT) (0 * BYTES_PER_ELEMENT)) h;
         h = gl (EnableVertexAttribArray colorAttrLocation) h
     in h)"

text \<open>The variables of \<open>run\<close> that its \<open>loop\<close> function reads and writes.\<close>

record World_closure =
  worldMatrix :: mat4
  worldMatrix2 :: mat4
  rotationMatrix :: mat4
  translationMatrix :: mat4
  angle :: real

text \<open>
  One call of \<open>loop\<close>, with \<open>now\<close> the answer of \<open>performance.now()\<close>. Reading
  \<open>indices.length\<close> when \<open>indices\<close> is \<open>null\<close> raises a TypeError.
\<close>

definition World_loop ::
  "uniform_location \<Rightarrow> real list option \<Rightarrow> real \<Rightarrow> World_closure \<Rightarrow> host \<Rightarrow>
     (js_error + unit) \<times> World_closure \<times> host" where
  "World_loop matWorldUniformLocation indices now c h =
    (let c = c\<lparr>angle := now / 1000 / 8 * 3 * pi\<rparr>;
         h = gl (Clear [COLOR_BUFFER_BIT, DEPTH_BUFFER_BIT]) h;
         c = c\<lparr>rotationMatrix := mat4_fromRotation (rotationMatrix c) (angle c) [1, 1, 0]\<rparr>;
         c = c\<lparr>translationMatrix := mat4_fromTranslation (translationMatrix c) [-1, -1, 0]\<rparr>;
         c = c\<lparr>worldMatrix := mat4_mul (translationMatrix c) (rotationMatrix c)\<rparr>;
         h = gl (UniformMatrix4fv matWorldUniformLocation False (worldMatrix c)) h
     in case indices of
          None \<Rightarrow> (Inl TypeError, c, h)
        | Some ix \<Rightarrow>
            let h = gl (DrawElements TRIANGLES (length ix) UNSIGNED_SHORT 0) h;
                c = c\<lparr>rotationMatrix := replicate 16 0\<rparr>;
                c = c\<lparr>translationMatrix := replicate 16 0\<rparr>;
                c = c\<lparr>rotationMatrix :=
                      mat4_fromRotation (rotationMatrix c) (angle c / 2) [1, 1, 1]\<rparr>;
                c = c\<lparr>translationMatrix :=
                      mat4_fromTranslation (translationMatrix c) [1.2, 1.2, 0]\<rparr>;
                c = c\<lparr>worldMatrix2 := mat4_mul (translationMatrix c) (rotationMatrix c)\<rparr>;
                h = gl (UniformMatrix4fv matWorldUniformLocation False (worldMatrix2 c)) h;
                h = gl (DrawElements TRIANGLES (length ix) UNSIGNED_SHORT 0) h;
                h = requestAnimationFrame h
            in (Inr (), c, h))"

text \<open>
  \<open>run\<close> up to and including its own call of \<open>requestAnimationFrame(loop)\<close>. It
  returns what \<open>loop\<close> captures: the location of \<open>mWorld\<close> and the closure variables.
\<close>

definition World_run ::
  "World \<Rightarrow> real list \<Rightarrow> real list \<Rightarrow> real list option \<Rightarrow> host \<Rightarrow>
     (uniform_location \<times> World_closure) \<times> host" where
  "World_run w vs cs indices h =
    (let h = prepareShaders w h;
         h = loadObject w vs cs indices h;
         h = gl (UseProgram (program w)) h;
         (matWorldUniformLocation, h) = gl_getUniformLocation (program w) ''mWorld'' h;
         (matViewUniformLocation, h) = gl_getUniformLocation (program w) ''mView'' h;
         (matProjUniformLocation, h) = gl_getUniformLocation (program w) ''mProj'' h;
         worldMatrix = mat4_create;
         worldMatrix2 = mat4_create;
         viewMatrix = mat4_create;
         viewMatrix = mat4_lookAt viewMatrix [0, 0, -8] [0, 0, 0] [0, 1, 0];
         projMatrix = mat4_create;
         projMatrix = mat4_perspective projMatrix (toRadian 45)
                        (width (the_canvas w) / clientHeight (the_canvas w)) 0.1 1000.0;
         h = gl (UniformMatrix4fv matWorldUniformLocation False worldMatrix) h;
         h = gl (UniformMatrix4fv matViewUniformLocation False viewMatrix) h;
         h = gl (UniformMatrix4fv matProjUniformLocation False projMatrix) h;
         c = \<lparr>worldMatrix = worldMatrix, worldMatrix2 = worldMatrix2,
              rotationMatrix = replicate 16 0, translationMatrix = replicate 16 0,
              angle = 0\<rparr>;
         h = requestAnimationFrame h
     in ((matWorldUniformLocation, c), h))"

text \<open>
  The host runs a pending \<open>loop\<close> callback once per frame, at the times of the list; an
  error raised by the callback is reported and the frame ends. Without a pending
  callback nothing runs any more.
\<close>

fun World_frames ::
  "uniform_location \<Rightarrow> real list option \<Rightarrow> real list \<Rightarrow> World_closure \<Rightarrow> host \<Rightarrow>
     World_closure \<times> host" where
  "World_frames loc indices [] c h = (c, h)"
| "World_frames loc indices (now # later) c h =
    (if pending_frames h = 0 then (c, h)
     else
       case World_loop loc indices now c (h\<lparr>pending_frames := pending_frames h - 1\<rparr>) of
         (Inl err, c', h') \<Rightarrow>
           World_frames loc indices later c' (h'\<lparr>events := events h' @ [Uncaught err]\<rparr>)
       | (Inr _, c', h') \<Rightarrow> World_frames loc indices later c' h')"

text \<open>The function \<open>Cube\<close> of the two-cube file (lines 196--299).\<close>

definition World_Cube ::
  "env \<Rightarrow> (js_error + uniform_location \<times> World_closure) \<times> host" where
  "World_Cube e =
    (case World_constructor e ''main-canvas'' [0.5, 0.4, 0.7] host0 of
       (Inl err, h) \<Rightarrow> (Inl err, h)
     | (Inr world, h) \<Rightarrow>
         let (lc, h) = World_run world boxVertices colors (Some (map real boxIndices)) h
         in (Inr lc, h))"

section \<open>The single-cube program (src/unnamed/part_000, lines 299--553)\<close>

text \<open>
  The statements at the top of the file (lines 328--333): they look the canvas up, ask
  it for a context and alert when there is none. They yield the globals \<open>canvas\<close>
  and \<open>gl\<close> (here: whether \<open>gl\<close> is a context).
\<close>

definition toplevel :: "env \<Rightarrow> (js_error + canvas \<times> bool) \<times> host" where
  "toplevel e =
    (let h = host0
     in case getElementById e ''main-canvas'' of
          None \<Rightarrow> (Inl TypeError, h)
        | Some cv \<Rightarrow>
            let has_gl = webgl cv;
                h = (if \<not> has_gl then alert ''no webgl'' h else h)
            in (Inr (cv, has_gl), h))"

text \<open>The variables of \<open>Cube\<close> that its \<open>loop\<close> function reads and writes.\<close>

record Cube_closure =
  cube_worldMatrix :: mat4
  identityMatrix :: mat4
  cube_angle :: real

definition Cube_loop ::
  "uniform_location \<Rightarrow> real \<Rightarrow> Cube_closure \<Rightarrow> host \<Rightarrow> Cube_closure \<times> host" where
  "Cube_loop matWorldUnifromLocation now c h =
    (let c = c\<lparr>cube_angle := now / 1000 / 8 * 2 * pi\<rparr>;
         c = c\<lparr>cube_worldMatrix :=
               mat4_rotate (cube_worldMatrix c) (identityMatrix c) (cube_angle c) [2, 1, 0]\<rparr>;
         h = gl (UniformMatrix4fv matWorldUnifromLocation False (cube_worldMatrix c)) h;
         h = gl (Clear [COLOR_BUFFER_BIT, DEPTH_BUFFER_BIT]) h;
         h = gl (DrawElements TRIANGLES (length boxIndices) UNSIGNED_SHORT 0) h;
         h = requestAnimationFrame h
     in (c, h))"

text \<open>
  \<open>Cube(length)\<close> up to and including its own call of \<open>requestAnimationFrame(loop)\<close>.
  Its first statement calls \<open>gl.clearColor\<close>, which raises a TypeError when \<open>gl\<close> is
  \<open>null\<close>.
\<close>

definition Cube ::
  "env \<Rightarrow> canvas \<Rightarrow> bool \<Rightarrow> real \<Rightarrow> host \<Rightarrow>
     (js_error + uniform_location \<times> Cube_closure) \<times> host" where
  "Cube e canvas has_gl length' h =
    (if \<not> has_gl then (Inl TypeError, h)
     else
       let h = gl (ClearColor [0.5, 0.3, 0.9, 1.0]) h;
           h = gl (Clear [COLOR_BUFFER_BIT, DEPTH_BUFFER_BIT]) h;
           h = gl (Enable DEPTH_TEST) h;
           h = gl (Enable CULL_FACE) h;
           (vertexShader, h) = gl_createShader (Some VERTEX_SHADER) h;
           (fragmentShader, h) = gl_createShader (Some FRAGMENT_SHADER) h;
           h = gl (ShaderSource vertexShader vertexShaderTxt) h;
           h = gl (ShaderSource fragmentShader fragmentShaderTxt) h;
           h = compile_and_check e vertexShader h;
           h = compile_and_check e fragmentShader h;
           (program, h) = gl_create CreateProgram h;
           h = gl (AttachShader program vertexShader) h;
           h = gl (AttachShader program fragmentShader) h;
           h = gl (LinkProgram program) h;
           h = gl (DetachShader program vertexShader) h;
           h = gl (DetachShader program fragmentShader) h;
           h = gl (ValidateProgram program) h;
           boxVertices = generateCubeVertices length' colors;
           (boxVertexBufferObject, h) = gl_create CreateBuffer h;
           h = gl (BindBuffer ARRAY_BUFFER boxVertexBufferObject) h;
           h = gl (BufferData ARRAY_BUFFER (new_Float32Array boxVertices) STATIC_DRAW) h;
           (cubeVertexBufferObject, h) = gl_create CreateBuffer h;
           h = gl (BindBuffer ELEMENT_ARRAY_BUFFER cubeVertexBufferObject) h;
           h = gl (BufferData ELEMENT_ARRAY_BUFFER
                 (new_Uint16Array (map real boxIndices)) STATIC_DRAW) h;
           (posAttrLocation, h) = gl_getAttribLocation program ''vertPosition'' h;
           (colorAttrLocation, h) = gl_getAttribLocation program ''vertColor'' h;
           h = gl (VertexAttribPointer posAttrLocation 3 FLOAT False
                 (6 * BYTES_PER_ELEMENT) 0) h;
           h = gl (VertexAttribPointer colorAttrLocation 3 FLOAT False
                 (6 * BYTES_PER_ELEMENT) (3 * BYTES_PER_ELEMENT)) h;
           h = gl (EnableVertexAttribArray posAttrLocation) h;
           h = gl (EnableVertexAttribArray colorAttrLocation) h;
           h = gl (UseProgram program) h;
           (matWorldUnifromLocation, h) = gl_getUniformLocation program ''mWorld'' h;
           (matViewUnifromLocation, h) = gl_getUniformLocation program ''mView'' h;
           (matProjUnifromLocation, h) = gl_getUniformLocation program ''mProj'' h;
           worldMatrix = mat4_create;
           viewMatrix = mat4_create;
           viewMatrix = mat4_lookAt viewMatrix [0, 0, -8] [0, 0, 0] [0, 1, 0];
           projMatrix = mat4_create;
           projMatrix = mat4_perspective projMatrix (toRadian 45)
                          (clientWidth canvas / clientHeight canvas) 0.1 1000.0;
           h = gl (UniformMatrix4fv matWorldUnifromLocation False worldMatrix) h;
           h = gl (UniformMatrix4fv matViewUnifromLocation False viewMatrix) h;
           h = gl (UniformMatrix4fv matProjUnifromLocation False projMatrix) h;
           identityMatrix = mat4_create;
           c = \<lparr>cube_worldMatrix = worldMatrix, identityMatrix = identityMatrix,
                cube_angle = 0\<rparr>;
           h = requestAnimationFrame h
       in (Inr (matWorldUnifromLocation, c), h))"

text \<open>
  The page: the statements at the top of the file, then the call \<open>Cube(length)\<close> (the call
  is made by the page, outside the source files). When the statements at the top raise an
  error the script stops before \<open>Cube\<close> is defined, and no statement of \<open>Cube\<close> runs.
\<close>

definition Cube_page ::
  "env \<Rightarrow> real \<Rightarrow> (js_error + uniform_location \<times> Cube_closure) \<times> host" where
  "Cube_page e length' =
    (case toplevel e of
       (Inl err, h) \<Rightarrow> (Inl err, h)
     | (Inr (canvas, has_gl), h) \<Rightarrow> Cube e canvas has_gl length' h)"

section \<open>Vocabulary for the properties of the programs\<close>

text \<open>The calls on the WebGL context in a trace, the draw calls among them, and the alerts.\<close>

fun is_GL :: "event \<Rightarrow> bool" where
  "is_GL (GL c) = True"
| "is_GL _ = False"

fun is_draw :: "event \<Rightarrow> bool" where
  "is_draw (GL (DrawElements m n t ofs)) = True"
| "is_draw (GL (DrawArrays m first n)) = True"
| "is_draw _ = False"

fun is_Alert :: "event \<Rightarrow> bool" where
  "is_Alert (Alert msg) = True"
| "is_Alert _ = False"

fun is_ConsoleLog :: "event \<Rightarrow> bool" where
  "is_ConsoleLog (ConsoleLog a) = True"
| "is_ConsoleLog _ = False"

text \<open>The uploads of a matrix to the uniform location \<open>loc\<close> in a trace.\<close>

fun uploads_to :: "uniform_location \<Rightarrow> event \<Rightarrow> bool" where
  "uploads_to loc (GL (UniformMatrix4fv loc' tr m)) = (loc' = loc)"
| "uploads_to loc _ = False"

text \<open>
  What the vertex fetch reads for vertex \<open>i\<close> through an attribute pointer: \<open>ap_size\<close>
  consecutive floats, starting \<open>ap_offset + i * ap_stride\<close> bytes into the buffer.
\<close>

definition attrib_read :: "jsval list \<Rightarrow> attrib_pointer \<Rightarrow> nat \<Rightarrow> jsval list" where
  "attrib_read floats p i =
    map (\<lambda>k. floats ! ((ap_offset p + i * ap_stride p) div BYTES_PER_ELEMENT + k))
      [0..<ap_size p]"

text \<open>The locations that the \<open>uniformMatrix4fv\<close> calls of a trace write to, in order.\<close>

fun upload_locations :: "event list \<Rightarrow> uniform_location list" where
  "upload_locations [] = []"
| "upload_locations (GL (UniformMatrix4fv loc tr m) # evs) = loc # upload_locations evs"
| "upload_locations (ev # evs) = upload_locations evs"

text \<open>
  The host runs a pending \<open>loop\<close> callback of the single-cube program once per frame,
  at the times of the list.
\<close>

fun Cube_frames ::
  "uniform_location \<Rightarrow> real list \<Rightarrow> Cube_closure \<Rightarrow> host \<Rightarrow> Cube_closure \<times> host" where
  "Cube_frames loc [] c h = (c, h)"
| "Cube_frames loc (now # later) c h =
    (if pending_frames h = 0 then (c, h)
     else
       case Cube_loop loc now c (h\<lparr>pending_frames := pending_frames h - 1\<rparr>) of
         (c', h') \<Rightarrow> Cube_frames loc later c' h')"

text \<open>A whole session: the page's program, then the frames the host delivers at the times \<open>ts\<close>.\<close>

definition World_session :: "env \<Rightarrow> real list \<Rightarrow> (js_error + World_closure) \<times> host" where
  "World_session e ts =
    (case World_Cube e of
       (Inl err, h) \<Rightarrow> (Inl err, h)
     | (Inr (loc, c), h) \<Rightarrow>
         let (c', h') = World_frames loc (Some (map real boxIndices)) ts c h
         in (Inr c', h'))"

definition Cube_session ::
  "env \<Rightarrow> real \<Rightarrow> real list \<Rightarrow> (js_error + Cube_closure) \<times> host" where
  "Cube_session e length' ts =
    (case Cube_page e length' of
       (Inl err, h) \<Rightarrow> (Inl err, h)
     | (Inr (loc, c), h) \<Rightarrow>
         let (c', h') = Cube_frames loc ts c h
         in (Inr c', h'))"

text \<open>
  The trace of \<open>compile_and_check\<close>: the compilation, the query of its status and,
  when the status is false, the query of the info log and the line on the console.
\<close>

definition compile_trace :: "env \<Rightarrow> handle option \<Rightarrow> event list" where
  "compile_trace e s =
     [GL (CompileShader s), GL (GetShaderParameter_COMPILE_STATUS s)] @
     (if compile_status e s then []
      else [GL (GetShaderInfoLog s), ConsoleLog (LogText (shader_info_log e s))])"

text \<open>
  The events a frame of a cube program may add to the trace: a clear, an upload to the
  location \<open>loc\<close> of the world matrix, an indexed draw, the request of the next frame,
  and the report of an error raised by the callback.
\<close>

fun is_frame_event :: "uniform_location \<Rightarrow> event \<Rightarrow> bool" where
  "is_frame_event loc (GL (Clear bits)) = True"
| "is_frame_event loc (GL (UniformMatrix4fv loc' tr m)) = (loc' = loc)"
| "is_frame_event loc (GL (DrawElements m n t ofs)) = True"
| "is_frame_event loc RequestAnimationFrame = True"
| "is_frame_event loc (Uncaught err) = True"
| "is_frame_event loc _ = False"

text \<open>
  The frame condition between a state \<open>h\<close> and a later state \<open>h'\<close>: the WebGL objects,
  the buffer bindings, the buffer contents, the attribute pointers and every uniform
  other than \<open>loc\<close> are the same, and the trace has only grown by frame events.
\<close>

definition frame_kept :: "uniform_location \<Rightarrow> host \<Rightarrow> host \<Rightarrow> bool" where
  "frame_kept loc h h' \<longleftrightarrow>
     objects h' = objects h \<and>
     array_buffer h' = array_buffer h \<and>
     element_array_buffer h' = element_array_buffer h \<and>
     buffer_store h' = buffer_store h \<and>
     attrib_pointers h' = attrib_pointers h \<and>
     (\<forall>l. l \<noteq> loc \<longrightarrow> uniform_store h' l = uniform_store h l) \<and>
     (\<exists>later. events h' = events h @ later \<and> list_all (is_frame_event loc) later)"

subsection \<open>Concrete environments\<close>

text \<open>
  A page whose canvas has the default drawing buffer of 300 by 150, shown at that size,
  and gives a context; every shader compiles.
\<close>

definition canvas_300x150 :: canvas where
  "canvas_300x150 =
    \<lparr>width = 300, height = 150, clientWidth = 300, clientHeight = 150, webgl = True\<rparr>"

definition env_ok :: env where
  "env_ok =
    \<lparr>getElementById = (\<lambda>i. if i = ''main-canvas'' then Some canvas_300x150 else None),
     compile_status = (\<lambda>s. True),
     shader_info_log = (\<lambda>s. [])\<rparr>"

text \<open>A page without the element \<open>main-canvas\<close>.\<close>

definition env_no_canvas :: env where
  "env_no_canvas = env_ok\<lparr>getElementById := (\<lambda>i. None)\<rparr>"

text \<open>A page whose canvas gives no WebGL context.\<close>

definition env_no_webgl :: env where
  "env_no_webgl =
    env_ok\<lparr>getElementById :=
      (\<lambda>i. if i = ''main-canvas'' then Some (canvas_300x150\<lparr>webgl := False\<rparr>) else None)\<rparr>"

text \<open>A context on which no shader compiles, with an info log to report.\<close>

definition env_compile_fails :: env where
  "env_compile_fails =
    env_ok\<lparr>compile_status := (\<lambda>s. False), shader_info_log := (\<lambda>s. ''ERROR: 0:1'')\<rparr>"

text \<open>
  A canvas with the default drawing buffer of 300 by 150 that the style sheet shows as a
  square of 600 by 600.
\<close>

definition env_stretched :: env where
  "env_stretched =
    env_ok\<lparr>getElementById :=
      (\<lambda>i. if i = ''main-canvas''
           then Some (canvas_300x150\<lparr>clientWidth := 600, clientHeight := 600\<rparr>)
           else None)\<rparr>"

section \<open>Properties of the geometry\<close>

lemma length_vertices: "length (vertices h) = 72"
  by (simp add: vertices_def)

lemma length_push_loop:
  "length (push_loop i n vs cs acc) = length acc + 6 * (n - i)"
proof (induction i n vs cs acc rule: push_loop.induct)
  case (1 i n vs cs acc)
  show ?case
  proof (cases "i < n")
    case True
    then show ?thesis
      using "1.IH" by (subst push_loop.simps) simp
  next
    case False
    then show ?thesis
      by (subst push_loop.simps) simp
  qed
qed

lemma length_generateCubeVertices: "length (generateCubeVertices L cs) = 144"
  by (simp add: generateCubeVertices_def Let_def length_push_loop length_vertices)

lemma push_loop_eq:
  "push_loop i n vs cs acc =
     acc @ concat (map (\<lambda>j.
       [js_index vs (j * 3), js_index vs (j * 3 + 1), js_index vs (j * 3 + 2),
        js_index cs (j * 3), js_index cs (j * 3 + 1), js_index cs (j * 3 + 2)]) [i..<n])"
proof (induction i n vs cs acc rule: push_loop.induct)
  case (1 i n vs cs acc)
  show ?case
  proof (cases "i < n")
    case True
    then show ?thesis
      using "1.IH" by (subst push_loop.simps) (simp add: upt_conv_Cons)
  next
    case False
    then show ?thesis
      by (subst push_loop.simps) simp
  qed
qed

lemma generateCubeVertices_eq:
  "generateCubeVertices L cs =
     concat (map (\<lambda>j.
       [js_index (vertices (L / 2)) (j * 3), js_index (vertices (L / 2)) (j * 3 + 1),
        js_index (vertices (L / 2)) (j * 3 + 2),
        js_index cs (j * 3), js_index cs (j * 3 + 1), js_index cs (j * 3 + 2)]) [0..<24])"
  by (simp add: generateCubeVertices_def Let_def push_loop_eq length_vertices)

lemma all_less_6: "(\<forall>f<6::nat. P f) = (P 0 \<and> P 1 \<and> P 2 \<and> P 3 \<and> P 4 \<and> P 5)"
  by (simp add: numeral_eq_Suc All_less_Suc conj_ac)

lemma all_less_4: "(\<forall>k<4::nat. P k) = (P 0 \<and> P 1 \<and> P 2 \<and> P 3)"
  by (simp add: numeral_eq_Suc All_less_Suc conj_ac)

lemma boxIndices_bound: "\<forall>i\<in>set boxIndices. i < 24"
  by (simp add: boxIndices_def)

lemma length_boxIndices: "length boxIndices = 36"
  by (simp add: boxIndices_def)

lemma length_colors: "length colors = 72"
  by (simp add: colors_def)

text \<open>
  C1. For every side length \<open>L > 0\<close> (and every colour table handed in),
  \<open>generateCubeVertices\<close> produces exactly 24 vertices: its position table has
  \<open>24 * 3\<close> entries and its result is the sequence of 24 records of six values (three
  of position, three of colour), \<open>24 * 6\<close> values in all. The fixed index list has
  exactly 36 entries and every one of them is strictly less than 24.
\<close>

theorem C1_cube_vertex_and_index_counts:
  assumes "0 < L"
  shows "length (vertices (L / 2)) = 24 * 3
       \<and> length (generateCubeVertices L cs) = 24 * (3 + 3)
       \<and> generateCubeVertices L cs =
           concat (map (\<lambda>j.
             [js_index (vertices (L / 2)) (j * 3), js_index (vertices (L / 2)) (j * 3 + 1),
              js_index (vertices (L / 2)) (j * 3 + 2),
              js_index cs (j * 3), js_index cs (j * 3 + 1), js_index cs (j * 3 + 2)])
             [0..<24])
       \<and> length boxIndices = 36
       \<and> (\<forall>i\<in>set boxIndices. i < 24)"
proof -
  have "generateCubeVertices L cs =
           concat (map (\<lambda>j.
             [js_index (vertices (L / 2)) (j * 3), js_index (vertices (L / 2)) (j * 3 + 1),
              js_index (vertices (L / 2)) (j * 3 + 2),
              js_index cs (j * 3), js_index cs (j * 3 + 1), js_index cs (j * 3 + 2)])
             [0..<24])"
    by (rule generateCubeVertices_eq)
  then show ?thesis
    using length_vertices [of "L / 2"] length_generateCubeVertices [of L cs]
      length_boxIndices boxIndices_bound
    by simp
qed

theorem C1_witness:
  "(0::real) < 2
   \<and> length (generateCubeVertices 2 colors) = 144
   \<and> length boxIndices = 36
   \<and> list_all (\<lambda>i. i < 24) boxIndices"
proof -
  have pos: "(0::real) < 2"
    by simp
  note counts = C1_cube_vertex_and_index_counts [OF pos, of colors]
  have "length (generateCubeVertices 2 colors) = 24 * (3 + 3)"
    by (rule conjunct1 [OF conjunct2 [OF counts]])
  moreover have "length boxIndices = 36 \<and> (\<forall>i\<in>set boxIndices. i < 24)"
    by (rule conjunct2 [OF conjunct2 [OF conjunct2 [OF counts]]])
  ultimately show ?thesis
    using pos by (simp add: list_all_iff)
qed

text \<open>
  C2. In the colour table of the cube (the same in both cube files) each of the six
  faces has all four of its vertices assigned one colour, the six colours are those of
  a fixed palette, and the six colours are pairwise distinct, so that no two distinct
  faces share a colour.
\<close>

theorem C2_face_colors:
  "length colors = 24 * 3
   \<and> (\<forall>f<6. \<forall>k<4. vertex_color colors (4 * f + k) = face_color colors f)
   \<and> map (face_color colors) [0..<6] =
       [(0.5, 0.5, 0.5), (0.75, 0.25, 0.5), (0.25, 0.25, 0.75),
        (1.0, 0.0, 0.15), (0.0, 1.0, 0.15), (0.5, 0.5, 1.0)]
   \<and> distinct (map (face_color colors) [0..<6])"
proof -
  have same: "\<forall>f<6. \<forall>k<4. vertex_color colors (4 * f + k) = face_color colors f"
    by (simp add: all_less_6 all_less_4 vertex_color_def face_color_def colors_def)
  have palette: "map (face_color colors) [0..<6] =
       [(0.5, 0.5, 0.5), (0.75, 0.25, 0.5), (0.25, 0.25, 0.75),
        (1.0, 0.0, 0.15), (0.0, 1.0, 0.15), (0.5, 0.5, 1.0)]"
    by (simp add: upt_conv_Cons face_color_def vertex_color_def colors_def)
  have "distinct (map (face_color colors) [0..<6])"
    unfolding palette by simp
  with same palette length_colors show ?thesis
    by simp
qed

theorem C2_witness:
  "vertex_color colors (4 * 3 + 2) = face_color colors 3
   \<and> face_color colors 3 = (1.0, 0.0, 0.15)
   \<and> distinct (map (face_color colors) [0..<6])"
proof -
  have "(3::nat) < 6" and "(2::nat) < 4"
    by simp_all
  then have "vertex_color colors (4 * 3 + 2) = face_color colors 3"
    using C2_face_colors by blast
  moreover have "face_color colors 3 = (1.0, 0.0, 0.15)"
    by (simp add: face_color_def vertex_color_def colors_def)
  ultimately show ?thesis
    using C2_face_colors by simp
qed

section \<open>Evaluation of the programs\<close>

lemmas host_defs = gl_def gl_create_def gl_createShader_def gl_getAttribLocation_def
  gl_getUniformLocation_def console_log_def alert_def requestAnimationFrame_def host0_def

lemmas World_defs = World_Cube_def World_constructor_def prepareBackGround_def World_run_def
  prepareShaders_def loadShader_def loadObject_def prepareBuffer_def

lemmas Cube_defs = Cube_page_def toplevel_def Cube_def

lemma compile_and_check_eq:
  "compile_and_check e s h = h\<lparr>events := events h @ compile_trace e s\<rparr>"
  by (simp add: compile_and_check_def compile_trace_def host_defs Let_def)

lemma Suc_Suc_0: "Suc (Suc 0) = 2"
  by simp

lemma hypot_ge_EPSILON: "1 \<le> x * x + y * y + z * z \<Longrightarrow> EPSILON \<le> hypot x y z"
proof -
  assume "1 \<le> x * x + y * y + z * z"
  then have "1 \<le> sqrt (x * x + y * y + z * z)"
    by (rule real_sqrt_ge_one)
  then have "1 / 1000000 \<le> sqrt (x * x + y * y + z * z)"
    by linarith
  then show ?thesis
    by (simp add: hypot_def EPSILON_def)
qed

lemma fromRotation_zero:
  assumes "1 \<le> x * x + y * y + z * z"
  shows "mat4_fromRotation out 0 [x, y, z] = mat4_create"
  using hypot_ge_EPSILON [OF assms]
  by (simp add: mat4_fromRotation_def mat4_create_def Let_def)

lemma rotate_zero:
  assumes "1 \<le> x * x + y * y + z * z"
  shows "mat4_rotate out mat4_create 0 [x, y, z] = mat4_create"
  using hypot_ge_EPSILON [OF assms]
  by (simp add: mat4_rotate_def mat4_create_def Let_def)

lemma mul_translation_identity:
  "mat4_mul (mat4_fromTranslation out [x, y, z]) mat4_create =
     [1, 0, 0, 0, 0, 1, 0, 0, 0, 0, 1, 0, x, y, z, 1]"
  by (simp add: mat4_mul_def mul_column_def mat4_fromTranslation_def mat4_create_def)

lemma World_loop_Some:
  "World_loop loc (Some ix) now c h =
     (Inr (),
      c\<lparr>angle := now / 1000 / 8 * 3 * pi,
        worldMatrix := mat4_mul (mat4_fromTranslation (translationMatrix c) [- 1, - 1, 0])
                        (mat4_fromRotation (rotationMatrix c) (now / 1000 / 8 * 3 * pi) [1, 1, 0]),
        rotationMatrix := mat4_fromRotation (replicate 16 0) (now / 1000 / 8 * 3 * pi / 2) [1, 1, 1],
        translationMatrix := mat4_fromTranslation (replicate 16 0) [1.2, 1.2, 0],
        worldMatrix2 := mat4_mul (mat4_fromTranslation (replicate 16 0) [1.2, 1.2, 0])
                        (mat4_fromRotation (replicate 16 0) (now / 1000 / 8 * 3 * pi / 2) [1, 1, 1])\<rparr>,
      h\<lparr>events := events h @
           [GL (Clear [COLOR_BUFFER_BIT, DEPTH_BUFFER_BIT]),
            GL (UniformMatrix4fv loc False
                 (mat4_mul (mat4_fromTranslation (translationMatrix c) [- 1, - 1, 0])
                        (mat4_fromRotation (rotationMatrix c) (now / 1000 / 8 * 3 * pi) [1, 1, 0]))),
            GL (DrawElements TRIANGLES (length ix) UNSIGNED_SHORT 0),
            GL (UniformMatrix4fv loc False
                 (mat4_mul (mat4_fromTranslation (replicate 16 0) [1.2, 1.2, 0])
                        (mat4_fromRotation (replicate 16 0) (now / 1000 / 8 * 3 * pi / 2) [1, 1, 1]))),
            GL (DrawElements TRIANGLES (length ix) UNSIGNED_SHORT 0),
            RequestAnimationFrame],
         uniform_store := (uniform_store h)(loc \<mapsto>
            mat4_mul (mat4_fromTranslation (replicate 16 0) [1.2, 1.2, 0])
                        (mat4_fromRotation (replicate 16 0) (now / 1000 / 8 * 3 * pi / 2) [1, 1, 1])),
         pending_frames := pending_frames h + 1\<rparr>)"
  by (simp add: World_loop_def host_defs Let_def)

lemma World_loop_None:
  "World_loop loc None now c h =
     (Inl TypeError,
      c\<lparr>angle := now / 1000 / 8 * 3 * pi,
        rotationMatrix := mat4_fromRotation (rotationMatrix c) (now / 1000 / 8 * 3 * pi) [1, 1, 0],
        translationMatrix := mat4_fromTranslation (translationMatrix c) [- 1, - 1, 0],
        worldMatrix := mat4_mul (mat4_fromTranslation (translationMatrix c) [- 1, - 1, 0])
                        (mat4_fromRotation (rotationMatrix c) (now / 1000 / 8 * 3 * pi) [1, 1, 0])\<rparr>,
      h\<lparr>events := events h @
           [GL (Clear [COLOR_BUFFER_BIT, DEPTH_BUFFER_BIT]),
            GL (UniformMatrix4fv loc False
                 (mat4_mul (mat4_fromTranslation (translationMatrix c) [- 1, - 1, 0])
                        (mat4_fromRotation (rotationMatrix c) (now / 1000 / 8 * 3 * pi) [1, 1, 0])))],
         uniform_store := (uniform_store h)(loc \<mapsto>
            mat4_mul (mat4_fromTranslation (translationMatrix c) [- 1, - 1, 0])
                        (mat4_fromRotation (rotationMatrix c) (now / 1000 / 8 * 3 * pi) [1, 1, 0]))\<rparr>)"
  by (simp add: World_loop_def host_defs Let_def)

lemma Cube_loop_eq:
  "Cube_loop loc now c h =
     (c\<lparr>cube_angle := now / 1000 / 8 * 2 * pi,
        cube_worldMatrix :=
          mat4_rotate (cube_worldMatrix c) (identityMatrix c) (now / 1000 / 8 * 2 * pi) [2, 1, 0]\<rparr>,
      h\<lparr>events := events h @
           [GL (UniformMatrix4fv loc False
                 (mat4_rotate (cube_worldMatrix c) (identityMatrix c)
                    (now / 1000 / 8 * 2 * pi) [2, 1, 0])),
            GL (Clear [COLOR_BUFFER_BIT, DEPTH_BUFFER_BIT]),
            GL (DrawElements TRIANGLES 36 UNSIGNED_SHORT 0),
            RequestAnimationFrame],
         uniform_store := (uniform_store h)(loc \<mapsto>
            mat4_rotate (cube_worldMatrix c) (identityMatrix c)
              (now / 1000 / 8 * 2 * pi) [2, 1, 0]),
         pending_frames := pending_frames h + 1\<rparr>)"
  by (simp add: Cube_loop_def host_defs Let_def length_boxIndices)

lemma World_frames_idle: "pending_frames h = 0 \<Longrightarrow> World_frames loc ix ts c h = (c, h)"
  by (cases ts) simp_all

lemma Cube_frames_idle: "pending_frames h = 0 \<Longrightarrow> Cube_frames loc ts c h = (c, h)"
  by (cases ts) simp_all


lemma frame_kept_refl: "frame_kept loc h h"
  by (simp add: frame_kept_def)

lemma frame_kept_trans:
  assumes "frame_kept loc h1 h2" and "frame_kept loc h2 h3"
  shows "frame_kept loc h1 h3"
proof -
  from assms(1) obtain l1 where l1: "events h2 = events h1 @ l1" "list_all (is_frame_event loc) l1"
    by (auto simp: frame_kept_def)
  from assms(2) obtain l2 where l2: "events h3 = events h2 @ l2" "list_all (is_frame_event loc) l2"
    by (auto simp: frame_kept_def)
  have "events h3 = events h1 @ (l1 @ l2)" "list_all (is_frame_event loc) (l1 @ l2)"
    using l1 l2 by simp_all
  then have "\<exists>later. events h3 = events h1 @ later \<and> list_all (is_frame_event loc) later"
    by blast
  then show ?thesis
    using assms by (simp add: frame_kept_def)
qed

lemma frame_kept_pending: "frame_kept loc h (h\<lparr>pending_frames := n\<rparr>)"
  by (simp add: frame_kept_def)

lemma frame_kept_Uncaught: "frame_kept loc h (h\<lparr>events := events h @ [Uncaught err]\<rparr>)"
  by (simp add: frame_kept_def)

lemma World_loop_frame_kept: "frame_kept loc h (snd (snd (World_loop loc ix now c h)))"
  by (cases ix) (simp_all add: World_loop_Some World_loop_None frame_kept_def)

lemma Cube_loop_frame_kept: "frame_kept loc h (snd (Cube_loop loc now c h))"
  by (simp add: Cube_loop_eq frame_kept_def)

lemma World_frames_frame_kept: "frame_kept loc h (snd (World_frames loc ix ts c h))"
proof (induction ts arbitrary: c h)
  case Nil
  show ?case by (simp add: frame_kept_refl)
next
  case (Cons now later)
  show ?case
  proof (cases "pending_frames h = 0")
    case True
    then show ?thesis by (simp add: frame_kept_refl)
  next
    case False
    let ?h0 = "h\<lparr>pending_frames := pending_frames h - 1\<rparr>"
    obtain r c' h' where step: "World_loop loc ix now c ?h0 = (r, c', h')"
      by (cases "World_loop loc ix now c ?h0") auto
    have k1: "frame_kept loc h h'"
      using World_loop_frame_kept [of loc ?h0 ix now c] step
      by (auto intro: frame_kept_trans [OF frame_kept_pending])
    show ?thesis
    proof (cases r)
      case (Inl err)
      have "frame_kept loc h (h'\<lparr>events := events h' @ [Uncaught err]\<rparr>)"
        by (rule frame_kept_trans [OF k1 frame_kept_Uncaught])
      then have "frame_kept loc h
          (snd (World_frames loc ix later c' (h'\<lparr>events := events h' @ [Uncaught err]\<rparr>)))"
        by (rule frame_kept_trans [OF _ Cons.IH])
      then show ?thesis
        using False step Inl by simp
    next
      case (Inr u)
      have "frame_kept loc h (snd (World_frames loc ix later c' h'))"
        by (rule frame_kept_trans [OF k1 Cons.IH])
      then show ?thesis
        using False step Inr by simp
    qed
  qed
qed

lemma Cube_frames_frame_kept: "frame_kept loc h (snd (Cube_frames loc ts c h))"
proof (induction ts arbitrary: c h)
  case Nil
  show ?case by (simp add: frame_kept_refl)
next
  case (Cons now later)
  show ?case
  proof (cases "pending_frames h = 0")
    case True
    then show ?thesis by (simp add: frame_kept_refl)
  next
    case False
    let ?h0 = "h\<lparr>pending_frames := pending_frames h - 1\<rparr>"
    obtain c' h' where step: "Cube_loop loc now c ?h0 = (c', h')"
      by (cases "Cube_loop loc now c ?h0") auto
    have k1: "frame_kept loc h h'"
      using Cube_loop_frame_kept [of loc ?h0 now c] step
      by (auto intro: frame_kept_trans [OF frame_kept_pending])
    have "frame_kept loc h (snd (Cube_frames loc later c' h'))"
      by (rule frame_kept_trans [OF k1 Cons.IH])
    then show ?thesis
      using False step by simp
  qed
qed

lemma frame_event_no_upload: "is_frame_event loc ev \<Longrightarrow> l \<noteq> loc \<Longrightarrow> \<not> uploads_to l ev"
  by (cases "(loc, ev)" rule: is_frame_event.cases) auto

lemma frame_events_no_upload:
  "list_all (is_frame_event loc) evs \<Longrightarrow> l \<noteq> loc \<Longrightarrow> filter (uploads_to l) evs = []"
  by (induction evs) (auto dest: frame_event_no_upload)

lemma frame_kept_uploads:
  assumes "frame_kept loc h h'" and "l \<noteq> loc"
  shows "filter (uploads_to l) (events h') = filter (uploads_to l) (events h)"
    and "uniform_store h' l = uniform_store h l"
  using assms by (auto simp: frame_kept_def frame_events_no_upload)


lemma World_Cube_fst:
  assumes "getElementById e ''main-canvas'' = Some cv" and "webgl cv"
  shows "fst (World_Cube e) =
     Inr (UniformLocation 0 ''mWorld'',
          \<lparr>worldMatrix = mat4_create, worldMatrix2 = mat4_create,
           rotationMatrix = replicate 16 0, translationMatrix = replicate 16 0, angle = 0\<rparr>)"
  using assms by (simp add: World_defs host_defs Let_def split_def)

lemma World_Cube_pending:
  assumes "getElementById e ''main-canvas'' = Some cv" and "webgl cv"
  shows "pending_frames (snd (World_Cube e)) = 1"
  using assms by (simp add: World_defs host_defs Let_def split_def)

lemma World_Cube_events:
  assumes "getElementById e ''main-canvas'' = Some cv" and "webgl cv"
  shows "events (snd (World_Cube e)) =
    [GL CreateProgram, GL (ClearColor [0.5, 0.4, 0.7, 1.0]),
     GL (Clear [COLOR_BUFFER_BIT, DEPTH_BUFFER_BIT]),
     GL (Enable DEPTH_TEST), GL (Enable CULL_FACE),
     GL (CreateShader (Some VERTEX_SHADER)),
     GL (ShaderSource (Some 1) vertexShaderTxt),
     GL (CompileShader (Some 1)),
     GL (AttachShader 0 (Some 1)),
     GL (CreateShader (Some FRAGMENT_SHADER)),
     GL (ShaderSource (Some 2) fragmentShaderTxt),
     GL (CompileShader (Some 2)),
     GL (AttachShader 0 (Some 2)),
     GL (LinkProgram 0),
     GL CreateBuffer, GL (BindBuffer ARRAY_BUFFER 3),
     GL (BufferData ARRAY_BUFFER (new_Float32Array (map Num boxVertices)) STATIC_DRAW),
     GL CreateBuffer, GL (BindBuffer ELEMENT_ARRAY_BUFFER 4),
     GL (BufferData ELEMENT_ARRAY_BUFFER (new_Uint16Array (map real boxIndices)) STATIC_DRAW),
     GL (GetAttribLocation 0 ''vertPosition''),
     GL (VertexAttribPointer (AttribLocation 0 ''vertPosition'') 3 FLOAT False
          (3 * BYTES_PER_ELEMENT) 0),
     GL (EnableVertexAttribArray (AttribLocation 0 ''vertPosition'')),
     GL CreateBuffer, GL (BindBuffer ARRAY_BUFFER 5),
     GL (BufferData ARRAY_BUFFER (new_Float32Array (map Num colors)) STATIC_DRAW),
     GL (GetAttribLocation 0 ''vertColor''),
     GL (VertexAttribPointer (AttribLocation 0 ''vertColor'') 3 FLOAT False
          (3 * BYTES_PER_ELEMENT) (0 * BYTES_PER_ELEMENT)),
     GL (EnableVertexAttribArray (AttribLocation 0 ''vertColor'')),
     GL (UseProgram 0),
     GL (GetUniformLocation 0 ''mWorld''),
     GL (GetUniformLocation 0 ''mView''),
     GL (GetUniformLocation 0 ''mProj''),
     GL (UniformMatrix4fv (UniformLocation 0 ''mWorld'') False mat4_create),
     GL (UniformMatrix4fv (UniformLocation 0 ''mView'') False
          (mat4_lookAt mat4_create [0, 0, - 8] [0, 0, 0] [0, 1, 0])),
     GL (UniformMatrix4fv (UniformLocation 0 ''mProj'') False
          (mat4_perspective mat4_create (toRadian 45)
             (width cv / clientHeight cv) 0.1 1000.0)),
     RequestAnimationFrame]"
  using assms by (simp add: World_defs host_defs Let_def split_def Suc_Suc_0)

lemma World_Cube_uniforms:
  assumes "getElementById e ''main-canvas'' = Some cv" and "webgl cv"
  shows "uniform_store (snd (World_Cube e)) =
    [UniformLocation 0 ''mWorld'' \<mapsto> mat4_create,
     UniformLocation 0 ''mView'' \<mapsto> mat4_lookAt mat4_create [0, 0, - 8] [0, 0, 0] [0, 1, 0],
     UniformLocation 0 ''mProj'' \<mapsto>
       mat4_perspective mat4_create (toRadian 45) (width cv / clientHeight cv) 0.1 1000.0]"
  using assms by (simp add: World_defs host_defs Let_def split_def)

lemma World_Cube_attribs:
  assumes "getElementById e ''main-canvas'' = Some cv" and "webgl cv"
  shows "attrib_pointers (snd (World_Cube e)) =
    [AttribLocation 0 ''vertPosition'' \<mapsto>
       \<lparr>ap_size = 3, ap_type = FLOAT, ap_normalized = False,
        ap_stride = 3 * BYTES_PER_ELEMENT, ap_offset = 0, ap_buffer = Some 3\<rparr>,
     AttribLocation 0 ''vertColor'' \<mapsto>
       \<lparr>ap_size = 3, ap_type = FLOAT, ap_normalized = False,
        ap_stride = 3 * BYTES_PER_ELEMENT, ap_offset = 0, ap_buffer = Some 5\<rparr>]"
  using assms by (simp add: World_defs host_defs Let_def split_def Suc_Suc_0)

lemma World_Cube_buffers:
  assumes "getElementById e ''main-canvas'' = Some cv" and "webgl cv"
  shows "buffer_store (snd (World_Cube e)) =
    [3 \<mapsto> Float32Array (map Num boxVertices),
     4 \<mapsto> Uint16Array (map ToUint16 (map real boxIndices)),
     5 \<mapsto> Float32Array (map Num colors)]"
  using assms
  by (simp add: World_defs host_defs Let_def split_def Suc_Suc_0
      new_Float32Array_def new_Uint16Array_def)

lemma World_session_ok:
  assumes "getElementById e ''main-canvas'' = Some cv" and "webgl cv"
  shows "World_session e ts =
    (Inr (fst (World_frames (UniformLocation 0 ''mWorld'') (Some (map real boxIndices)) ts
            \<lparr>worldMatrix = mat4_create, worldMatrix2 = mat4_create,
              rotationMatrix = replicate 16 0, translationMatrix = replicate 16 0, angle = 0\<rparr>
            (snd (World_Cube e)))),
     snd (World_frames (UniformLocation 0 ''mWorld'') (Some (map real boxIndices)) ts
            \<lparr>worldMatrix = mat4_create, worldMatrix2 = mat4_create,
              rotationMatrix = replicate 16 0, translationMatrix = replicate 16 0, angle = 0\<rparr>
            (snd (World_Cube e))))"
proof -
  obtain h where "World_Cube e =
     (Inr (UniformLocation 0 ''mWorld'',
          \<lparr>worldMatrix = mat4_create, worldMatrix2 = mat4_create,
           rotationMatrix = replicate 16 0, translationMatrix = replicate 16 0, angle = 0\<rparr>), h)"
    using World_Cube_fst [OF assms] by (cases "World_Cube e") auto
  then show ?thesis
    by (simp add: World_session_def split_def Let_def)
qed

lemma Cube_page_fst:
  assumes "getElementById e ''main-canvas'' = Some cv" and "webgl cv"
  shows "fst (Cube_page e L) =
     Inr (UniformLocation 2 ''mWorld'',
          \<lparr>cube_worldMatrix = mat4_create, identityMatrix = mat4_create, cube_angle = 0\<rparr>)"
  using assms by (simp add: Cube_defs compile_and_check_eq host_defs Let_def split_def Suc_Suc_0)

lemma Cube_page_pending:
  assumes "getElementById e ''main-canvas'' = Some cv" and "webgl cv"
  shows "pending_frames (snd (Cube_page e L)) = 1"
  using assms by (simp add: Cube_defs compile_and_check_eq host_defs Let_def split_def)

lemma Cube_page_events:
  assumes "getElementById e ''main-canvas'' = Some cv" and "webgl cv"
  shows "events (snd (Cube_page e L)) =
    [GL (ClearColor [0.5, 0.3, 0.9, 1.0]),
     GL (Clear [COLOR_BUFFER_BIT, DEPTH_BUFFER_BIT]),
     GL (Enable DEPTH_TEST), GL (Enable CULL_FACE),
     GL (CreateShader (Some VERTEX_SHADER)),
     GL (CreateShader (Some FRAGMENT_SHADER)),
     GL (ShaderSource (Some 0) vertexShaderTxt),
     GL (ShaderSource (Some 1) fragmentShaderTxt)] @
    compile_trace e (Some 0) @
    compile_trace e (Some 1) @
    [GL CreateProgram,
     GL (AttachShader 2 (Some 0)), GL (AttachShader 2 (Some 1)),
     GL (LinkProgram 2),
     GL (DetachShader 2 (Some 0)), GL (DetachShader 2 (Some 1)),
     GL (ValidateProgram 2),
     GL CreateBuffer, GL (BindBuffer ARRAY_BUFFER 3),
     GL (BufferData ARRAY_BUFFER (new_Float32Array (generateCubeVertices L colors)) STATIC_DRAW),
     GL CreateBuffer, GL (BindBuffer ELEMENT_ARRAY_BUFFER 4),
     GL (BufferData ELEMENT_ARRAY_BUFFER (new_Uint16Array (map real boxIndices)) STATIC_DRAW),
     GL (GetAttribLocation 2 ''vertPosition''),
     GL (GetAttribLocation 2 ''vertColor''),
     GL (VertexAttribPointer (AttribLocation 2 ''vertPosition'') 3 FLOAT False
          (6 * BYTES_PER_ELEMENT) 0),
     GL (VertexAttribPointer (AttribLocation 2 ''vertColor'') 3 FLOAT False
          (6 * BYTES_PER_ELEMENT) (3 * BYTES_PER_ELEMENT)),
     GL (EnableVertexAttribArray (AttribLocation 2 ''vertPosition'')),
     GL (EnableVertexAttribArray (AttribLocation 2 ''vertColor'')),
     GL (UseProgram 2),
     GL (GetUniformLocation 2 ''mWorld''),
     GL (GetUniformLocation 2 ''mView''),
     GL (GetUniformLocation 2 ''mProj''),
     GL (UniformMatrix4fv (UniformLocation 2 ''mWorld'') False mat4_create),
     GL (UniformMatrix4fv (UniformLocation 2 ''mView'') False
          (mat4_lookAt mat4_create [0, 0, - 8] [0, 0, 0] [0, 1, 0])),
     GL (UniformMatrix4fv (UniformLocation 2 ''mProj'') False
          (mat4_perspective mat4_create (toRadian 45)
             (clientWidth cv / clientHeight cv) 0.1 1000.0)),
     RequestAnimationFrame]"
  using assms by (simp add: Cube_defs compile_and_check_eq host_defs Let_def split_def Suc_Suc_0)

lemma Cube_page_uniforms:
  assumes "getElementById e ''main-canvas'' = Some cv" and "webgl cv"
  shows "uniform_store (snd (Cube_page e L)) =
    [UniformLocation 2 ''mWorld'' \<mapsto> mat4_create,
     UniformLocation 2 ''mView'' \<mapsto> mat4_lookAt mat4_create [0, 0, - 8] [0, 0, 0] [0, 1, 0],
     UniformLocation 2 ''mProj'' \<mapsto>
       mat4_perspective mat4_create (toRadian 45) (clientWidth cv / clientHeight cv) 0.1 1000.0]"
  using assms by (simp add: Cube_defs compile_and_check_eq host_defs Let_def split_def Suc_Suc_0)

lemma Cube_page_attribs:
  assumes "getElementById e ''main-canvas'' = Some cv" and "webgl cv"
  shows "attrib_pointers (snd (Cube_page e L)) =
    [AttribLocation 2 ''vertPosition'' \<mapsto>
       \<lparr>ap_size = 3, ap_type = FLOAT, ap_normalized = False,
        ap_stride = 6 * BYTES_PER_ELEMENT, ap_offset = 0, ap_buffer = Some 3\<rparr>,
     AttribLocation 2 ''vertColor'' \<mapsto>
       \<lparr>ap_size = 3, ap_type = FLOAT, ap_normalized = False,
        ap_stride = 6 * BYTES_PER_ELEMENT, ap_offset = 3 * BYTES_PER_ELEMENT,
        ap_buffer = Some 3\<rparr>]"
  using assms by (simp add: Cube_defs compile_and_check_eq host_defs Let_def split_def Suc_Suc_0)

lemma Cube_page_buffers:
  assumes "getElementById e ''main-canvas'' = Some cv" and "webgl cv"
  shows "buffer_store (snd (Cube_page e L)) =
    [3 \<mapsto> Float32Array (generateCubeVertices L colors),
     4 \<mapsto> Uint16Array (map ToUint16 (map real boxIndices))]"
  using assms
  by (simp add: Cube_defs compile_and_check_eq host_defs Let_def split_def Suc_Suc_0
      new_Float32Array_def new_Uint16Array_def)

lemma Cube_session_ok:
  assumes "getElementById e ''main-canvas'' = Some cv" and "webgl cv"
  shows "Cube_session e L ts =
    (Inr (fst (Cube_frames (UniformLocation 2 ''mWorld'') ts
            \<lparr>cube_worldMatrix = mat4_create, identityMatrix = mat4_create, cube_angle = 0\<rparr>
            (snd (Cube_page e L)))),
     snd (Cube_frames (UniformLocation 2 ''mWorld'') ts
            \<lparr>cube_worldMatrix = mat4_create, identityMatrix = mat4_create, cube_angle = 0\<rparr>
            (snd (Cube_page e L))))"
proof -
  obtain h where "Cube_page e L =
     (Inr (UniformLocation 2 ''mWorld'',
          \<lparr>cube_worldMatrix = mat4_create, identityMatrix = mat4_create, cube_angle = 0\<rparr>), h)"
    using Cube_page_fst [OF assms, of L] by (cases "Cube_page e L") auto
  then show ?thesis
    by (simp add: Cube_session_def split_def Let_def)
qed

lemma env_ok_canvas: "getElementById env_ok ''main-canvas'' = Some canvas_300x150"
  by (simp add: env_ok_def)

lemma webgl_canvas_300x150: "webgl canvas_300x150"
  by (simp add: canvas_300x150_def)

section \<open>The attribute layout\<close>

lemma nth_concat_map_upt:
  assumes "\<forall>j<n. length (g j) = m" and "i < n" and "k < m"
  shows "concat (map g [0..<n]) ! (i * m + k) = g i ! k"
  using assms
proof (induction n)
  case 0
  then show ?case by simp
next
  case (Suc n)
  have len: "length (concat (map g [0..<n])) = n * m"
    using Suc.prems(1) by (induction n) simp_all
  show ?case
  proof (cases "i < n")
    case True
    then have "i * m + k < n * m"
    proof -
      have "i * m + k < i * m + m" using Suc.prems(3) by simp
      also have "\<dots> = Suc i * m" by simp
      also have "\<dots> \<le> n * m" using True by (intro mult_le_mono1) simp
      finally show ?thesis .
    qed
    then show ?thesis
      using Suc True len by (simp add: nth_append)
  next
    case False
    then have "i = n" using Suc.prems(2) by simp
    then show ?thesis
      using len by (simp add: nth_append)
  qed
qed

lemma generateCubeVertices_nth:
  assumes "i < 24" and "k < 6"
  shows "generateCubeVertices L cs ! (i * 6 + k) =
     [js_index (vertices (L / 2)) (i * 3), js_index (vertices (L / 2)) (i * 3 + 1),
      js_index (vertices (L / 2)) (i * 3 + 2),
      js_index cs (i * 3), js_index cs (i * 3 + 1), js_index cs (i * 3 + 2)] ! k"
  unfolding generateCubeVertices_eq
  using assms by (subst nth_concat_map_upt) simp_all

lemma attrib_read_3:
  "attrib_read floats
     \<lparr>ap_size = 3, ap_type = t, ap_normalized = n, ap_stride = s, ap_offset = ofs, ap_buffer = b\<rparr> i =
   [floats ! ((ofs + i * s) div 4), floats ! ((ofs + i * s) div 4 + 1),
    floats ! ((ofs + i * s) div 4 + 2)]"
  by (simp add: attrib_read_def BYTES_PER_ELEMENT_def upt_conv_Cons)

lemma generateCubeVertices_vertex:
  assumes "i < 24"
  shows "generateCubeVertices L colors ! (i * 6) = Num (vertices (L / 2) ! (i * 3))"
    and "generateCubeVertices L colors ! (i * 6 + 1) = Num (vertices (L / 2) ! (i * 3 + 1))"
    and "generateCubeVertices L colors ! (i * 6 + 2) = Num (vertices (L / 2) ! (i * 3 + 2))"
    and "generateCubeVertices L colors ! (i * 6 + 3) = Num (colors ! (i * 3))"
    and "generateCubeVertices L colors ! (i * 6 + 4) = Num (colors ! (i * 3 + 1))"
    and "generateCubeVertices L colors ! (i * 6 + 5) = Num (colors ! (i * 3 + 2))"
proof -
  have r: "i * 3 < 72" "i * 3 + 1 < 72" "i * 3 + 2 < 72"
    using assms by simp_all
  show "generateCubeVertices L colors ! (i * 6) = Num (vertices (L / 2) ! (i * 3))"
    using generateCubeVertices_nth [OF assms, of 0 L colors] r
    by (simp add: js_index_def length_vertices)
  show "generateCubeVertices L colors ! (i * 6 + 1) = Num (vertices (L / 2) ! (i * 3 + 1))"
    using generateCubeVertices_nth [OF assms, of 1 L colors] r
    by (simp add: js_index_def length_vertices)
  show "generateCubeVertices L colors ! (i * 6 + 2) = Num (vertices (L / 2) ! (i * 3 + 2))"
    using generateCubeVertices_nth [OF assms, of 2 L colors] r
    by (simp add: js_index_def length_vertices)
  show "generateCubeVertices L colors ! (i * 6 + 3) = Num (colors ! (i * 3))"
    using generateCubeVertices_nth [OF assms, of 3 L colors] r
    by (simp add: js_index_def length_colors)
  show "generateCubeVertices L colors ! (i * 6 + 4) = Num (colors ! (i * 3 + 1))"
    using generateCubeVertices_nth [OF assms, of 4 L colors] r
    by (simp add: js_index_def length_colors)
  show "generateCubeVertices L colors ! (i * 6 + 5) = Num (colors ! (i * 3 + 2))"
    using generateCubeVertices_nth [OF assms, of 5 L colors] r
    by (simp add: js_index_def length_colors)
qed

lemma interleaved_read:
  assumes "i < 24"
  shows "attrib_read (generateCubeVertices L colors)
           \<lparr>ap_size = 3, ap_type = FLOAT, ap_normalized = False,
            ap_stride = 6 * BYTES_PER_ELEMENT, ap_offset = 0, ap_buffer = b\<rparr> i =
         [Num (vertices (L / 2) ! (i * 3)), Num (vertices (L / 2) ! (i * 3 + 1)),
          Num (vertices (L / 2) ! (i * 3 + 2))]"
    and "attrib_read (generateCubeVertices L colors)
           \<lparr>ap_size = 3, ap_type = FLOAT, ap_normalized = False,
            ap_stride = 6 * BYTES_PER_ELEMENT, ap_offset = 3 * BYTES_PER_ELEMENT,
            ap_buffer = b\<rparr> i =
         [Num (colors ! (i * 3)), Num (colors ! (i * 3 + 1)), Num (colors ! (i * 3 + 2))]"
proof -
  have a: "(0 + i * (6 * 4)) div 4 = i * 6"
    by simp
  have b: "(3 * 4 + i * (6 * 4)) div 4 = i * 6 + 3"
    by simp
  have k: "i * 6 + 3 + 1 = i * 6 + 4" "i * 6 + 3 + 2 = i * 6 + 5"
    by simp_all
  show "attrib_read (generateCubeVertices L colors)
           \<lparr>ap_size = 3, ap_type = FLOAT, ap_normalized = False,
            ap_stride = 6 * BYTES_PER_ELEMENT, ap_offset = 0, ap_buffer = b\<rparr> i =
         [Num (vertices (L / 2) ! (i * 3)), Num (vertices (L / 2) ! (i * 3 + 1)),
          Num (vertices (L / 2) ! (i * 3 + 2))]"
    unfolding attrib_read_3 BYTES_PER_ELEMENT_def a
    by (simp only: generateCubeVertices_vertex [OF assms])
  show "attrib_read (generateCubeVertices L colors)
           \<lparr>ap_size = 3, ap_type = FLOAT, ap_normalized = False,
            ap_stride = 6 * BYTES_PER_ELEMENT, ap_offset = 3 * BYTES_PER_ELEMENT,
            ap_buffer = b\<rparr> i =
         [Num (colors ! (i * 3)), Num (colors ! (i * 3 + 1)), Num (colors ! (i * 3 + 2))]"
    unfolding attrib_read_3 BYTES_PER_ELEMENT_def b k
    by (simp only: generateCubeVertices_vertex [OF assms])
qed

lemma separate_read:
  assumes "i < 24" and "length xs = 72"
  shows "attrib_read (map Num xs)
           \<lparr>ap_size = 3, ap_type = FLOAT, ap_normalized = False,
            ap_stride = 3 * BYTES_PER_ELEMENT, ap_offset = 0, ap_buffer = b\<rparr> i =
         [Num (xs ! (i * 3)), Num (xs ! (i * 3 + 1)), Num (xs ! (i * 3 + 2))]"
proof -
  have a: "(0 + i * (3 * 4)) div 4 = i * 3"
    by simp
  have r: "i * 3 < length xs" "i * 3 + 1 < length xs" "i * 3 + 2 < length xs"
    using assms by simp_all
  show ?thesis
    unfolding attrib_read_3 BYTES_PER_ELEMENT_def a
    using r by (simp only: nth_map)
qed


text \<open>
  C3. The stride and offset handed to \<open>vertexAttribPointer\<close> match the layout of the
  data. In the single-cube program both attributes point into the one buffer that holds
  the result of \<open>generateCubeVertices\<close>, with stride (3 position + 3 colour) times the
  size of a float, the position at offset 0 and the colour at offset 3 floats; read
  through these pointers, vertex \<open>i\<close> gets the \<open>i\<close>-th position of the position table and
  the \<open>i\<close>-th colour of the colour table. In the two-cube program each attribute points
  into a buffer of its own (positions, colours) with stride 3 floats and offset 0, and
  vertex \<open>i\<close> again gets the \<open>i\<close>-th position and the \<open>i\<close>-th colour.
\<close>

theorem C3_attribute_layout_matches_geometry:
  assumes "getElementById e ''main-canvas'' = Some cv" and "webgl cv"
  shows
    "attrib_pointers (snd (Cube_page e L)) (AttribLocation 2 ''vertPosition'') =
       Some \<lparr>ap_size = 3, ap_type = FLOAT, ap_normalized = False,
             ap_stride = (3 + 3) * BYTES_PER_ELEMENT, ap_offset = 0, ap_buffer = Some 3\<rparr>
     \<and> attrib_pointers (snd (Cube_page e L)) (AttribLocation 2 ''vertColor'') =
       Some \<lparr>ap_size = 3, ap_type = FLOAT, ap_normalized = False,
             ap_stride = (3 + 3) * BYTES_PER_ELEMENT, ap_offset = 3 * BYTES_PER_ELEMENT,
             ap_buffer = Some 3\<rparr>
     \<and> buffer_store (snd (Cube_page e L)) 3 = Some (Float32Array (generateCubeVertices L colors))
     \<and> (\<forall>i<24.
           attrib_read (generateCubeVertices L colors)
             \<lparr>ap_size = 3, ap_type = FLOAT, ap_normalized = False,
              ap_stride = (3 + 3) * BYTES_PER_ELEMENT, ap_offset = 0, ap_buffer = Some 3\<rparr> i =
           [Num (vertices (L / 2) ! (i * 3)), Num (vertices (L / 2) ! (i * 3 + 1)),
            Num (vertices (L / 2) ! (i * 3 + 2))]
         \<and> attrib_read (generateCubeVertices L colors)
             \<lparr>ap_size = 3, ap_type = FLOAT, ap_normalized = False,
              ap_stride = (3 + 3) * BYTES_PER_ELEMENT, ap_offset = 3 * BYTES_PER_ELEMENT,
              ap_buffer = Some 3\<rparr> i =
           [Num (colors ! (i * 3)), Num (colors ! (i * 3 + 1)), Num (colors ! (i * 3 + 2))])
     \<and> attrib_pointers (snd (World_Cube e)) (AttribLocation 0 ''vertPosition'') =
       Some \<lparr>ap_size = 3, ap_type = FLOAT, ap_normalized = False,
             ap_stride = 3 * BYTES_PER_ELEMENT, ap_offset = 0, ap_buffer = Some 3\<rparr>
     \<and> attrib_pointers (snd (World_Cube e)) (AttribLocation 0 ''vertColor'') =
       Some \<lparr>ap_size = 3, ap_type = FLOAT, ap_normalized = False,
             ap_stride = 3 * BYTES_PER_ELEMENT, ap_offset = 0, ap_buffer = Some 5\<rparr>
     \<and> buffer_store (snd (World_Cube e)) 3 = Some (Float32Array (map Num boxVertices))
     \<and> buffer_store (snd (World_Cube e)) 5 = Some (Float32Array (map Num colors))
     \<and> (\<forall>i<24.
           attrib_read (map Num boxVertices)
             \<lparr>ap_size = 3, ap_type = FLOAT, ap_normalized = False,
              ap_stride = 3 * BYTES_PER_ELEMENT, ap_offset = 0, ap_buffer = Some 3\<rparr> i =
           [Num (boxVertices ! (i * 3)), Num (boxVertices ! (i * 3 + 1)),
            Num (boxVertices ! (i * 3 + 2))]
         \<and> attrib_read (map Num colors)
             \<lparr>ap_size = 3, ap_type = FLOAT, ap_normalized = False,
              ap_stride = 3 * BYTES_PER_ELEMENT, ap_offset = 0, ap_buffer = Some 5\<rparr> i =
           [Num (colors ! (i * 3)), Num (colors ! (i * 3 + 1)), Num (colors ! (i * 3 + 2))])"
proof -
  have six: "(3 + 3) * BYTES_PER_ELEMENT = 6 * BYTES_PER_ELEMENT"
    by simp
  have lb: "length boxVertices = 72"
    by (simp add: boxVertices_def)
  show ?thesis
    unfolding six
    using interleaved_read [of _ L] separate_read [OF _ lb] separate_read [OF _ length_colors]
    by (simp add: Cube_page_attribs [OF assms] Cube_page_buffers [OF assms]
        World_Cube_attribs [OF assms] World_Cube_buffers [OF assms])
qed

theorem C3_witness:
  "attrib_pointers (snd (Cube_page env_ok 2)) (AttribLocation 2 ''vertColor'') =
       Some \<lparr>ap_size = 3, ap_type = FLOAT, ap_normalized = False,
             ap_stride = 24, ap_offset = 12, ap_buffer = Some 3\<rparr>
   \<and> attrib_read (generateCubeVertices 2 colors)
        \<lparr>ap_size = 3, ap_type = FLOAT, ap_normalized = False,
         ap_stride = 24, ap_offset = 12, ap_buffer = Some 3\<rparr> 5 = [Num 0.75, Num 0.25, Num 0.5]
   \<and> attrib_read (generateCubeVertices 2 colors)
        \<lparr>ap_size = 3, ap_type = FLOAT, ap_normalized = False,
         ap_stride = 24, ap_offset = 0, ap_buffer = Some 3\<rparr> 5 = [Num (- 1), Num (- 1), Num 1]
   \<and> attrib_pointers (snd (World_Cube env_ok)) (AttribLocation 0 ''vertColor'') =
       Some \<lparr>ap_size = 3, ap_type = FLOAT, ap_normalized = False,
             ap_stride = 12, ap_offset = 0, ap_buffer = Some 5\<rparr>"
proof -
  note layout = C3_attribute_layout_matches_geometry [OF env_ok_canvas webgl_canvas_300x150, of 2]
  have five: "(5::nat) < 24"
    by simp
  have entries: "vertices (2 / 2) ! (5 * 3) = - 1" "vertices (2 / 2) ! (5 * 3 + 1) = - 1"
    "vertices (2 / 2) ! (5 * 3 + 2) = 1"
    "colors ! (5 * 3) = 0.75" "colors ! (5 * 3 + 1) = 0.25" "colors ! (5 * 3 + 2) = 0.5"
    by (simp_all add: vertices_def colors_def)
  from layout five entries show ?thesis
    by (simp add: BYTES_PER_ELEMENT_def)
qed

section \<open>The render loops\<close>

lemma World_session_one_frame:
  assumes "getElementById e ''main-canvas'' = Some cv" and "webgl cv"
  shows "World_session e [now] =
    (Inr (fst (snd (World_loop (UniformLocation 0 ''mWorld'') (Some (map real boxIndices)) now
            \<lparr>worldMatrix = mat4_create, worldMatrix2 = mat4_create,
              rotationMatrix = replicate 16 0, translationMatrix = replicate 16 0, angle = 0\<rparr>
            ((snd (World_Cube e))\<lparr>pending_frames := 0\<rparr>)))),
     snd (snd (World_loop (UniformLocation 0 ''mWorld'') (Some (map real boxIndices)) now
            \<lparr>worldMatrix = mat4_create, worldMatrix2 = mat4_create,
              rotationMatrix = replicate 16 0, translationMatrix = replicate 16 0, angle = 0\<rparr>
            ((snd (World_Cube e))\<lparr>pending_frames := 0\<rparr>))))"
  by (simp add: World_session_ok [OF assms] World_Cube_pending [OF assms] World_loop_Some)

lemma Cube_session_one_frame:
  assumes "getElementById e ''main-canvas'' = Some cv" and "webgl cv"
  shows "Cube_session e L [now] =
    (Inr (fst (Cube_loop (UniformLocation 2 ''mWorld'') now
            \<lparr>cube_worldMatrix = mat4_create, identityMatrix = mat4_create, cube_angle = 0\<rparr>
            ((snd (Cube_page e L))\<lparr>pending_frames := 0\<rparr>))),
     snd (Cube_loop (UniformLocation 2 ''mWorld'') now
            \<lparr>cube_worldMatrix = mat4_create, identityMatrix = mat4_create, cube_angle = 0\<rparr>
            ((snd (Cube_page e L))\<lparr>pending_frames := 0\<rparr>)))"
  by (simp add: Cube_session_ok [OF assms] Cube_page_pending [OF assms] Cube_loop_eq)

lemma compile_trace_env_ok:
  "compile_trace env_ok s = [GL (CompileShader s), GL (GetShaderParameter_COMPILE_STATUS s)]"
  by (simp add: compile_trace_def env_ok_def)

text \<open>
  C4. An iteration of the loop of the two-cube program, run with the index list that
  program passes, returns normally and adds to the trace exactly: a clear, the upload of
  the first world matrix, an indexed draw, the upload of the second world matrix, an
  indexed draw, and the request of the next frame. An iteration of the loop of the
  single-cube program adds exactly: the upload of the world matrix, a clear, one indexed
  draw and the request of the next frame. Every draw has mode \<open>TRIANGLES\<close> and index
  count 36. This holds for every time and every state the iteration starts from, so the
  request of the next frame is unconditional. In particular the whole session of either
  program on a page with a canvas (side length 2 for the single cube), with one frame at
  time 0, holds exactly two, respectively one, draw call.
\<close>

theorem C4_draw_calls_per_iteration:
  "fst (World_loop loc (Some (map real boxIndices)) now c h) = Inr ()
   \<and> events (snd (snd (World_loop loc (Some (map real boxIndices)) now c h))) =
       events h @
       [GL (Clear [COLOR_BUFFER_BIT, DEPTH_BUFFER_BIT]),
        GL (UniformMatrix4fv loc False
             (worldMatrix (fst (snd (World_loop loc (Some (map real boxIndices)) now c h))))),
        GL (DrawElements TRIANGLES 36 UNSIGNED_SHORT 0),
        GL (UniformMatrix4fv loc False
             (worldMatrix2 (fst (snd (World_loop loc (Some (map real boxIndices)) now c h))))),
        GL (DrawElements TRIANGLES 36 UNSIGNED_SHORT 0),
        RequestAnimationFrame]
   \<and> pending_frames (snd (snd (World_loop loc (Some (map real boxIndices)) now c h))) =
       pending_frames h + 1
   \<and> events (snd (Cube_loop loc now c' h)) =
       events h @
       [GL (UniformMatrix4fv loc False (cube_worldMatrix (fst (Cube_loop loc now c' h)))),
        GL (Clear [COLOR_BUFFER_BIT, DEPTH_BUFFER_BIT]),
        GL (DrawElements TRIANGLES 36 UNSIGNED_SHORT 0),
        RequestAnimationFrame]
   \<and> pending_frames (snd (Cube_loop loc now c' h)) = pending_frames h + 1
   \<and> filter is_draw (events (snd (World_session env_ok [0]))) =
       [GL (DrawElements TRIANGLES 36 UNSIGNED_SHORT 0),
        GL (DrawElements TRIANGLES 36 UNSIGNED_SHORT 0)]
   \<and> filter is_draw (events (snd (Cube_session env_ok 2 [0]))) =
       [GL (DrawElements TRIANGLES 36 UNSIGNED_SHORT 0)]"
proof -
  have world: "filter is_draw (events (snd (World_session env_ok [0]))) =
       [GL (DrawElements TRIANGLES 36 UNSIGNED_SHORT 0),
        GL (DrawElements TRIANGLES 36 UNSIGNED_SHORT 0)]"
    by (simp add: World_session_one_frame [OF env_ok_canvas webgl_canvas_300x150]
        World_loop_Some World_Cube_events [OF env_ok_canvas webgl_canvas_300x150]
        length_boxIndices)
  have cube: "filter is_draw (events (snd (Cube_session env_ok 2 [0]))) =
       [GL (DrawElements TRIANGLES 36 UNSIGNED_SHORT 0)]"
    by (simp add: Cube_session_one_frame [OF env_ok_canvas webgl_canvas_300x150]
        Cube_loop_eq Cube_page_events [OF env_ok_canvas webgl_canvas_300x150]
        compile_trace_env_ok)
  show ?thesis
    unfolding world cube
    by (simp add: World_loop_Some Cube_loop_eq length_boxIndices)
qed

text \<open>
  C5. At time 0 the angle of either loop is 0, and the rotation by the angle 0 about each
  of the fixed axes is the identity matrix. So the iteration of the two-cube program
  leaves in \<open>worldMatrix\<close> the translation by (-1, -1, 0) and in \<open>worldMatrix2\<close> the
  translation by (1.2, 1.2, 0), composed with the identity, and uploads these two
  matrices; the iteration of the single-cube program, whose \<open>identityMatrix\<close> is the
  identity, leaves in its world matrix exactly the identity and uploads it. The first
  frame of a session on a page with a canvas is such an iteration.
\<close>

theorem C5_world_matrix_at_time_zero:
  assumes "identityMatrix c' = mat4_create"
  shows
    "angle (fst (snd (World_loop loc (Some ix) 0 c h))) = 0
     \<and> mat4_fromRotation out 0 [1, 1, 0] = mat4_create
     \<and> mat4_fromRotation out 0 [1, 1, 1] = mat4_create
     \<and> mat4_rotate out mat4_create 0 [2, 1, 0] = mat4_create
     \<and> worldMatrix (fst (snd (World_loop loc (Some ix) 0 c h))) =
         mat4_mul (mat4_fromTranslation out [- 1, - 1, 0]) mat4_create
     \<and> worldMatrix (fst (snd (World_loop loc (Some ix) 0 c h))) =
         [1, 0, 0, 0,
          0, 1, 0, 0,
          0, 0, 1, 0,
          - 1, - 1, 0, 1]
     \<and> worldMatrix2 (fst (snd (World_loop loc (Some ix) 0 c h))) =
         mat4_mul (mat4_fromTranslation out [1.2, 1.2, 0]) mat4_create
     \<and> worldMatrix2 (fst (snd (World_loop loc (Some ix) 0 c h))) =
         [1, 0, 0, 0,
          0, 1, 0, 0,
          0, 0, 1, 0,
          1.2, 1.2, 0, 1]
     \<and> upload_locations (drop (length (events h))
          (events (snd (snd (World_loop loc (Some ix) 0 c h))))) = [loc, loc]
     \<and> uniform_store (snd (snd (World_loop loc (Some ix) 0 c h))) loc =
         Some [1, 0, 0, 0,
               0, 1, 0, 0,
               0, 0, 1, 0,
               1.2, 1.2, 0, 1]
     \<and> cube_angle (fst (Cube_loop loc 0 c' h)) = 0
     \<and> cube_worldMatrix (fst (Cube_loop loc 0 c' h)) = mat4_create
     \<and> identityMatrix (fst (Cube_loop loc 0 c' h)) = mat4_create
     \<and> uniform_store (snd (Cube_loop loc 0 c' h)) loc = Some mat4_create
     \<and> fst (World_session env_ok [0]) =
         Inr \<lparr>worldMatrix = [1, 0, 0, 0, 0, 1, 0, 0, 0, 0, 1, 0, - 1, - 1, 0, 1],
              worldMatrix2 = [1, 0, 0, 0, 0, 1, 0, 0, 0, 0, 1, 0, 1.2, 1.2, 0, 1],
              rotationMatrix = mat4_create,
              translationMatrix = [1, 0, 0, 0, 0, 1, 0, 0, 0, 0, 1, 0, 1.2, 1.2, 0, 1],
              angle = 0\<rparr>
     \<and> fst (Cube_session env_ok 2 [0]) =
         Inr \<lparr>cube_worldMatrix = mat4_create, identityMatrix = mat4_create, cube_angle = 0\<rparr>"
proof -
  have rot: "mat4_fromRotation out' 0 [1, 1, 0] = mat4_create"
    "mat4_fromRotation out' 0 [1, 1, 1] = mat4_create"
    "mat4_rotate out' mat4_create 0 [2, 1, 0] = mat4_create" for out'
    by (simp_all add: fromRotation_zero rotate_zero)
  have tr: "mat4_fromTranslation out' [x, y, z] = [1, 0, 0, 0, 0, 1, 0, 0, 0, 0, 1, 0, x, y, z, 1]"
    for out' x y z
    by (simp add: mat4_fromTranslation_def)
  have mul: "mat4_mul [1, 0, 0, 0, 0, 1, 0, 0, 0, 0, 1, 0, x, y, z, 1] mat4_create =
      [1, 0, 0, 0, 0, 1, 0, 0, 0, 0, 1, 0, x, y, z, 1]" for x y z
    by (simp add: mat4_mul_def mul_column_def mat4_create_def)
  have world: "fst (World_session env_ok [0]) =
         Inr \<lparr>worldMatrix = [1, 0, 0, 0, 0, 1, 0, 0, 0, 0, 1, 0, - 1, - 1, 0, 1],
              worldMatrix2 = [1, 0, 0, 0, 0, 1, 0, 0, 0, 0, 1, 0, 1.2, 1.2, 0, 1],
              rotationMatrix = mat4_create,
              translationMatrix = [1, 0, 0, 0, 0, 1, 0, 0, 0, 0, 1, 0, 1.2, 1.2, 0, 1],
              angle = 0\<rparr>"
    by (simp add: World_session_one_frame [OF env_ok_canvas webgl_canvas_300x150]
        World_loop_Some rot tr mul)
  have cube: "fst (Cube_session env_ok 2 [0]) =
         Inr \<lparr>cube_worldMatrix = mat4_create, identityMatrix = mat4_create, cube_angle = 0\<rparr>"
    by (simp add: Cube_session_one_frame [OF env_ok_canvas webgl_canvas_300x150]
        Cube_loop_eq rot)
  show ?thesis
    unfolding world cube
    using assms
    by (simp add: World_loop_Some Cube_loop_eq rot mul_translation_identity)
qed

theorem C5_witness:
  "fst (Cube_page env_ok 2) =
     Inr (UniformLocation 2 ''mWorld'',
          \<lparr>cube_worldMatrix = mat4_create, identityMatrix = mat4_create, cube_angle = 0\<rparr>)
   \<and> identityMatrix
        \<lparr>cube_worldMatrix = mat4_create, identityMatrix = mat4_create, cube_angle = 0\<rparr> =
       mat4_create
   \<and> cube_worldMatrix (fst (Cube_loop (UniformLocation 2 ''mWorld'') 0
        \<lparr>cube_worldMatrix = mat4_create, identityMatrix = mat4_create, cube_angle = 0\<rparr>
        (snd (Cube_page env_ok 2)))) = [1, 0, 0, 0, 0, 1, 0, 0, 0, 0, 1, 0, 0, 0, 0, 1]
   \<and> worldMatrix (fst (snd (World_loop (UniformLocation 0 ''mWorld'') (Some (map real boxIndices)) 0
        \<lparr>worldMatrix = mat4_create, worldMatrix2 = mat4_create,
          rotationMatrix = replicate 16 0, translationMatrix = replicate 16 0, angle = 0\<rparr>
        (snd (World_Cube env_ok))))) = [1, 0, 0, 0, 0, 1, 0, 0, 0, 0, 1, 0, - 1, - 1, 0, 1]"
proof -
  have id: "identityMatrix
        \<lparr>cube_worldMatrix = mat4_create, identityMatrix = mat4_create, cube_angle = 0\<rparr> =
       mat4_create"
    by simp
  note at_zero = C5_world_matrix_at_time_zero [OF id,
      of "UniformLocation 0 ''mWorld''" "map real boxIndices"
        "\<lparr>worldMatrix = mat4_create, worldMatrix2 = mat4_create,
          rotationMatrix = replicate 16 0, translationMatrix = replicate 16 0, angle = 0\<rparr>"
        "snd (World_Cube env_ok)"]
  note at_zero' = C5_world_matrix_at_time_zero [OF id,
      of "UniformLocation 2 ''mWorld''" "[]" _ "snd (Cube_page env_ok 2)"]
  have "cube_worldMatrix (fst (Cube_loop (UniformLocation 2 ''mWorld'') 0
        \<lparr>cube_worldMatrix = mat4_create, identityMatrix = mat4_create, cube_angle = 0\<rparr>
        (snd (Cube_page env_ok 2)))) = mat4_create"
    using at_zero' by blast
  moreover have "worldMatrix (fst (snd (World_loop (UniformLocation 0 ''mWorld'') (Some (map real boxIndices)) 0
        \<lparr>worldMatrix = mat4_create, worldMatrix2 = mat4_create,
          rotationMatrix = replicate 16 0, translationMatrix = replicate 16 0, angle = 0\<rparr>
        (snd (World_Cube env_ok))))) = [1, 0, 0, 0, 0, 1, 0, 0, 0, 0, 1, 0, - 1, - 1, 0, 1]"
    using at_zero by blast
  ultimately show ?thesis
    using Cube_page_fst [OF env_ok_canvas webgl_canvas_300x150, of 2]
    by (simp add: mat4_create_def)
qed

lemma World_run_None:
  "World_run w vs cs None h =
    ((UniformLocation (program w) ''mWorld'',
      \<lparr>worldMatrix = mat4_create, worldMatrix2 = mat4_create,
       rotationMatrix = replicate 16 0, translationMatrix = replicate 16 0, angle = 0\<rparr>),
     snd (World_run w vs cs None h))"
  by (simp add: World_defs host_defs Let_def split_def)

lemma World_run_pending: "pending_frames (snd (World_run w vs cs ix h)) = pending_frames h + 1"
  by (cases ix) (simp_all add: World_defs host_defs Let_def split_def)

lemma World_run_None_draws:
  "filter is_draw (events (snd (World_run w vs cs None h))) = filter is_draw (events h)"
  by (simp add: World_defs host_defs Let_def split_def)

lemma World_run_None_index_buffer:
  "element_array_buffer (snd (World_run w vs cs None h)) = element_array_buffer h"
  by (simp add: World_defs host_defs Let_def split_def)

text \<open>
  C10. \<open>run\<close> and \<open>loadObject\<close> accept a missing index list: with \<open>indices = null\<close>
  \<open>run\<close> completes, binds no index buffer and schedules the first frame. Every call of
  \<open>loop\<close> reads \<open>indices.length\<close>: with \<open>indices = null\<close> it raises a TypeError after
  the clear and the first upload, before any draw call and before the request of the
  next frame, whatever the time and the state; with an index list it returns normally.
  So a run without index list fails at its first frame: that frame adds a clear, an
  upload and the report of the TypeError to the trace, no draw call is ever made, and no
  callback is pending afterwards, so that no later frame runs.
\<close>

theorem C10_null_index_list_fails_at_first_frame:
  assumes "pending_frames h = 0"
  shows
    "fst (World_loop loc None now c h') = Inl TypeError
     \<and> events (snd (snd (World_loop loc None now c h'))) =
         events h' @
         [GL (Clear [COLOR_BUFFER_BIT, DEPTH_BUFFER_BIT]),
          GL (UniformMatrix4fv loc False (worldMatrix (fst (snd (World_loop loc None now c h')))))]
     \<and> pending_frames (snd (snd (World_loop loc None now c h'))) = pending_frames h'
     \<and> fst (World_loop loc (Some ix) now c h') = Inr ()
     \<and> pending_frames (snd (World_run w vs cs None h)) = 1
     \<and> element_array_buffer (snd (World_run w vs cs None h)) = element_array_buffer h
     \<and> (case World_run w vs cs None h of
          ((loc0, c0), h1) \<Rightarrow>
            (case World_frames loc0 None (now # later) c0 h1 of
               (c2, h2) \<Rightarrow>
                 events h2 =
                   events h1 @
                   [GL (Clear [COLOR_BUFFER_BIT, DEPTH_BUFFER_BIT]),
                    GL (UniformMatrix4fv loc0 False (worldMatrix c2)),
                    Uncaught TypeError]
                 \<and> filter is_draw (events h2) = filter is_draw (events h)
                 \<and> pending_frames h2 = 0))"
proof -
  have p: "pending_frames (snd (World_run w vs cs None h)) = 1"
    using assms by (simp add: World_run_pending)
  have session: "(case World_run w vs cs None h of
          ((loc0, c0), h1) \<Rightarrow>
            (case World_frames loc0 None (now # later) c0 h1 of
               (c2, h2) \<Rightarrow>
                 events h2 =
                   events h1 @
                   [GL (Clear [COLOR_BUFFER_BIT, DEPTH_BUFFER_BIT]),
                    GL (UniformMatrix4fv loc0 False (worldMatrix c2)),
                    Uncaught TypeError]
                 \<and> filter is_draw (events h2) = filter is_draw (events h)
                 \<and> pending_frames h2 = 0))"
    by (subst World_run_None)
      (simp add: p World_loop_None World_frames_idle World_run_None_draws)
  show ?thesis
    using p session
    by (simp add: World_loop_None World_loop_Some World_run_None_index_buffer)
qed

theorem C10_witness:
  "pending_frames host0 = 0
   \<and> fst (World_loop (UniformLocation 0 ''mWorld'') None 0
        \<lparr>worldMatrix = mat4_create, worldMatrix2 = mat4_create,
          rotationMatrix = replicate 16 0, translationMatrix = replicate 16 0, angle = 0\<rparr>
        host0) = Inl TypeError
   \<and> pending_frames (snd (World_run
        \<lparr>the_canvas = canvas_300x150, backgroundColor = [0.5, 0.4, 0.7], program = 0\<rparr>
        boxVertices colors None host0)) = 1"
proof -
  have idle: "pending_frames host0 = 0"
    by (simp add: host0_def)
  note fails = C10_null_index_list_fails_at_first_frame [OF idle,
      of "UniformLocation 0 ''mWorld''" 0
        "\<lparr>worldMatrix = mat4_create, worldMatrix2 = mat4_create,
          rotationMatrix = replicate 16 0, translationMatrix = replicate 16 0, angle = 0\<rparr>"
        host0 "[]"
        "\<lparr>the_canvas = canvas_300x150, backgroundColor = [0.5, 0.4, 0.7], program = 0\<rparr>"
        boxVertices colors "[]"]
  from fails idle show ?thesis
    by blast
qed

section \<open>The frame condition\<close>

lemma upload_locations_setup:
  assumes "getElementById e ''main-canvas'' = Some cv" and "webgl cv"
  shows "upload_locations (events (snd (World_Cube e))) =
      [UniformLocation 0 ''mWorld'', UniformLocation 0 ''mView'', UniformLocation 0 ''mProj'']"
    and "last (events (snd (World_Cube e))) = RequestAnimationFrame"
    and "filter (uploads_to (UniformLocation 0 ''mView'')) (events (snd (World_Cube e))) =
      [GL (UniformMatrix4fv (UniformLocation 0 ''mView'') False
            (mat4_lookAt mat4_create [0, 0, - 8] [0, 0, 0] [0, 1, 0]))]"
    and "filter (uploads_to (UniformLocation 0 ''mProj'')) (events (snd (World_Cube e))) =
      [GL (UniformMatrix4fv (UniformLocation 0 ''mProj'') False
            (mat4_perspective mat4_create (toRadian 45) (width cv / clientHeight cv) 0.1 1000.0))]"
  by (simp_all add: World_Cube_events [OF assms])

lemma upload_locations_append:
  "upload_locations (xs @ ys) = upload_locations xs @ upload_locations ys"
  by (induction xs rule: upload_locations.induct) simp_all

lemma upload_locations_compile_trace: "upload_locations (compile_trace e s) = []"
  by (simp add: compile_trace_def)

lemma uploads_to_compile_trace: "filter (uploads_to l) (compile_trace e s) = []"
  by (simp add: compile_trace_def)

lemma Cube_upload_locations_setup:
  assumes "getElementById e ''main-canvas'' = Some cv" and "webgl cv"
  shows "upload_locations (events (snd (Cube_page e L))) =
      [UniformLocation 2 ''mWorld'', UniformLocation 2 ''mView'', UniformLocation 2 ''mProj'']"
    and "last (events (snd (Cube_page e L))) = RequestAnimationFrame"
    and "filter (uploads_to (UniformLocation 2 ''mView'')) (events (snd (Cube_page e L))) =
      [GL (UniformMatrix4fv (UniformLocation 2 ''mView'') False
            (mat4_lookAt mat4_create [0, 0, - 8] [0, 0, 0] [0, 1, 0]))]"
    and "filter (uploads_to (UniformLocation 2 ''mProj'')) (events (snd (Cube_page e L))) =
      [GL (UniformMatrix4fv (UniformLocation 2 ''mProj'') False
            (mat4_perspective mat4_create (toRadian 45)
               (clientWidth cv / clientHeight cv) 0.1 1000.0))]"
  by (simp_all add: Cube_page_events [OF assms] upload_locations_append
      upload_locations_compile_trace uploads_to_compile_trace)

text \<open>
  C8. The view and the projection matrix are uploaded exactly once, in the part of the
  program that runs before the first frame is requested, and no frame uploads them
  again: in a session of either cube program with any number of frames at any times, the
  trace holds exactly one upload to \<open>mView\<close> and one to \<open>mProj\<close>, both made before the
  setup's request of the first frame, and these two uniforms hold the matrices computed
  in the setup. Every iteration of either loop keeps the frame condition: it adds only
  clears, uploads to the location of the world matrix, indexed draws and the request of
  the next frame, and leaves the WebGL objects, the buffer bindings, the buffer contents,
  the attribute pointers and every uniform other than the world matrix as they were;
  so does a whole run of frames. (The loop's own variables, from which it computes the
  world matrix, are not WebGL state.)
\<close>

theorem C8_view_projection_uploaded_once:
  assumes "getElementById e ''main-canvas'' = Some cv" and "webgl cv"
  shows
    "upload_locations (events (snd (World_Cube e))) =
       [UniformLocation 0 ''mWorld'', UniformLocation 0 ''mView'', UniformLocation 0 ''mProj'']
     \<and> last (events (snd (World_Cube e))) = RequestAnimationFrame
     \<and> frame_kept (UniformLocation 0 ''mWorld'') (snd (World_Cube e)) (snd (World_session e ts))
     \<and> filter (uploads_to (UniformLocation 0 ''mView'')) (events (snd (World_session e ts))) =
         [GL (UniformMatrix4fv (UniformLocation 0 ''mView'') False
               (mat4_lookAt mat4_create [0, 0, - 8] [0, 0, 0] [0, 1, 0]))]
     \<and> filter (uploads_to (UniformLocation 0 ''mProj'')) (events (snd (World_session e ts))) =
         [GL (UniformMatrix4fv (UniformLocation 0 ''mProj'') False
               (mat4_perspective mat4_create (toRadian 45)
                  (width cv / clientHeight cv) 0.1 1000.0))]
     \<and> uniform_store (snd (World_session e ts)) (UniformLocation 0 ''mView'') =
         Some (mat4_lookAt mat4_create [0, 0, - 8] [0, 0, 0] [0, 1, 0])
     \<and> uniform_store (snd (World_session e ts)) (UniformLocation 0 ''mProj'') =
         Some (mat4_perspective mat4_create (toRadian 45) (width cv / clientHeight cv) 0.1 1000.0)
     \<and> upload_locations (events (snd (Cube_page e L))) =
       [UniformLocation 2 ''mWorld'', UniformLocation 2 ''mView'', UniformLocation 2 ''mProj'']
     \<and> last (events (snd (Cube_page e L))) = RequestAnimationFrame
     \<and> frame_kept (UniformLocation 2 ''mWorld'') (snd (Cube_page e L)) (snd (Cube_session e L ts))
     \<and> filter (uploads_to (UniformLocation 2 ''mView'')) (events (snd (Cube_session e L ts))) =
         [GL (UniformMatrix4fv (UniformLocation 2 ''mView'') False
               (mat4_lookAt mat4_create [0, 0, - 8] [0, 0, 0] [0, 1, 0]))]
     \<and> filter (uploads_to (UniformLocation 2 ''mProj'')) (events (snd (Cube_session e L ts))) =
         [GL (UniformMatrix4fv (UniformLocation 2 ''mProj'') False
               (mat4_perspective mat4_create (toRadian 45)
                  (clientWidth cv / clientHeight cv) 0.1 1000.0))]
     \<and> uniform_store (snd (Cube_session e L ts)) (UniformLocation 2 ''mView'') =
         Some (mat4_lookAt mat4_create [0, 0, - 8] [0, 0, 0] [0, 1, 0])
     \<and> uniform_store (snd (Cube_session e L ts)) (UniformLocation 2 ''mProj'') =
         Some (mat4_perspective mat4_create (toRadian 45)
                 (clientWidth cv / clientHeight cv) 0.1 1000.0)
     \<and> frame_kept loc h (snd (snd (World_loop loc ix now c h)))
     \<and> frame_kept loc h (snd (Cube_loop loc now c' h))"
proof -
  have wk: "frame_kept (UniformLocation 0 ''mWorld'') (snd (World_Cube e))
      (snd (World_session e ts))"
    by (simp add: World_session_ok [OF assms] World_frames_frame_kept)
  have ck: "frame_kept (UniformLocation 2 ''mWorld'') (snd (Cube_page e L))
      (snd (Cube_session e L ts))"
    by (simp add: Cube_session_ok [OF assms] Cube_frames_frame_kept)
  have wv: "UniformLocation 0 ''mView'' \<noteq> UniformLocation 0 ''mWorld''"
    and wp: "UniformLocation 0 ''mProj'' \<noteq> UniformLocation 0 ''mWorld''"
    and cv: "UniformLocation 2 ''mView'' \<noteq> UniformLocation 2 ''mWorld''"
    and cp: "UniformLocation 2 ''mProj'' \<noteq> UniformLocation 2 ''mWorld''"
    by simp_all
  show ?thesis
    unfolding frame_kept_uploads [OF wk wv] frame_kept_uploads [OF wk wp]
      frame_kept_uploads [OF ck cv] frame_kept_uploads [OF ck cp]
    using wk ck
    by (simp add: upload_locations_setup [OF assms] Cube_upload_locations_setup [OF assms]
        World_Cube_uniforms [OF assms] Cube_page_uniforms [OF assms]
        World_loop_frame_kept Cube_loop_frame_kept)
qed

theorem C8_witness:
  "getElementById env_ok ''main-canvas'' = Some canvas_300x150
   \<and> webgl canvas_300x150
   \<and> length (filter (uploads_to (UniformLocation 0 ''mView''))
        (events (snd (World_session env_ok [0, 16, 33])))) = 1
   \<and> length (filter (uploads_to (UniformLocation 2 ''mProj''))
        (events (snd (Cube_session env_ok 2 [0, 16, 33])))) = 1
   \<and> uniform_store (snd (World_session env_ok [0, 16, 33])) (UniformLocation 0 ''mProj'') =
       Some (mat4_perspective mat4_create (toRadian 45) 2 0.1 1000.0)"
proof -
  note once = C8_view_projection_uploaded_once [OF env_ok_canvas webgl_canvas_300x150,
      of "[0, 16, 33]" 2]
  have "filter (uploads_to (UniformLocation 0 ''mView''))
        (events (snd (World_session env_ok [0, 16, 33]))) =
         [GL (UniformMatrix4fv (UniformLocation 0 ''mView'') False
               (mat4_lookAt mat4_create [0, 0, - 8] [0, 0, 0] [0, 1, 0]))]"
    using once by blast
  moreover have "filter (uploads_to (UniformLocation 2 ''mProj''))
        (events (snd (Cube_session env_ok 2 [0, 16, 33]))) =
         [GL (UniformMatrix4fv (UniformLocation 2 ''mProj'') False
               (mat4_perspective mat4_create (toRadian 45)
                  (clientWidth canvas_300x150 / clientHeight canvas_300x150) 0.1 1000.0))]"
    using once by blast
  moreover have "uniform_store (snd (World_session env_ok [0, 16, 33])) (UniformLocation 0 ''mProj'') =
         Some (mat4_perspective mat4_create (toRadian 45)
            (width canvas_300x150 / clientHeight canvas_300x150) 0.1 1000.0)"
    using once by blast
  ultimately show ?thesis
    using env_ok_canvas webgl_canvas_300x150
    by (simp add: canvas_300x150_def)
qed

section \<open>Missing canvas, missing context, failing compilation\<close>

lemma Triangle_no_canvas:
  assumes "getElementById e ''main-canvas'' = None"
  shows "Triangle e = (Inl TypeError, host0\<lparr>events := [ConsoleLog (LogCanvas None)]\<rparr>)"
  using assms by (simp add: Triangle_def host_defs Let_def)

lemma Triangle_no_webgl:
  assumes "getElementById e ''main-canvas'' = Some cv" and "\<not> webgl cv"
  shows "Triangle e =
    (Inl TypeError, host0\<lparr>events := [ConsoleLog (LogCanvas (Some cv)), Alert ''no webgl'']\<rparr>)"
  using assms by (simp add: Triangle_def host_defs Let_def)

lemma Cube_page_no_canvas:
  assumes "getElementById e ''main-canvas'' = None"
  shows "Cube_page e L = (Inl TypeError, host0)"
  using assms by (simp add: Cube_defs host_defs Let_def)

lemma Cube_page_no_webgl:
  assumes "getElementById e ''main-canvas'' = Some cv" and "\<not> webgl cv"
  shows "Cube_page e L = (Inl TypeError, host0\<lparr>events := [Alert ''no webgl'']\<rparr>)"
  using assms by (simp add: Cube_defs host_defs Let_def)

lemma World_Cube_no_canvas:
  assumes "getElementById e ''main-canvas'' = None"
  shows "World_Cube e = (Inl TypeError, host0)"
  using assms by (simp add: World_defs)

lemma World_Cube_no_webgl:
  assumes "getElementById e ''main-canvas'' = Some cv" and "\<not> webgl cv"
  shows "World_Cube e = (Inl TypeError, host0)"
  using assms by (simp add: World_defs)

text \<open>
  C7 as stated fails: on a page without the element \<open>main-canvas\<close> the triangle
  program and the single-cube program emit no alert.
\<close>

theorem C7_counterexample:
  "getElementById env_no_canvas ''main-canvas'' = None
   \<and> filter is_Alert (events (snd (Triangle env_no_canvas))) = []
   \<and> filter is_Alert (events (snd (Cube_page env_no_canvas 2))) = []"
proof -
  have none: "getElementById env_no_canvas ''main-canvas'' = None"
    by (simp add: env_no_canvas_def)
  show ?thesis
    by (simp add: none Triangle_no_canvas [OF none] Cube_page_no_canvas [OF none] host0_def)
qed

text \<open>
  C7, amended. When the canvas \<open>main-canvas\<close> is absent or gives no WebGL context,
  each of the three programs ends with a TypeError, makes no call on the graphics
  context and leaves no frame callback pending. When the canvas exists but gives no
  context, the triangle program and the single-cube program emit the alert
  \<open>no webgl\<close>, and the alert is their last event: the statement after it calls a method
  on the null context and raises the TypeError. When the canvas is absent, these two
  programs emit no alert: the TypeError is raised by \<open>canvas.getContext\<close>, before the
  check that alerts.
\<close>

theorem C7_no_context_no_rendering:
  assumes "getElementById e ''main-canvas'' = None
         \<or> (\<exists>cv. getElementById e ''main-canvas'' = Some cv \<and> \<not> webgl cv)"
  shows
    "fst (Triangle e) = Inl TypeError
     \<and> filter is_GL (events (snd (Triangle e))) = []
     \<and> pending_frames (snd (Triangle e)) = 0
     \<and> fst (Cube_page e L) = Inl TypeError
     \<and> filter is_GL (events (snd (Cube_page e L))) = []
     \<and> pending_frames (snd (Cube_page e L)) = 0
     \<and> fst (World_Cube e) = Inl TypeError
     \<and> filter is_GL (events (snd (World_Cube e))) = []
     \<and> pending_frames (snd (World_Cube e)) = 0
     \<and> (getElementById e ''main-canvas'' = None \<longrightarrow>
          events (snd (Triangle e)) = [ConsoleLog (LogCanvas None)]
          \<and> events (snd (Cube_page e L)) = [])
     \<and> (\<forall>cv. getElementById e ''main-canvas'' = Some cv \<longrightarrow>
          events (snd (Triangle e)) = [ConsoleLog (LogCanvas (Some cv)), Alert ''no webgl'']
          \<and> events (snd (Cube_page e L)) = [Alert ''no webgl''])"
  using assms
proof
  assume none: "getElementById e ''main-canvas'' = None"
  show ?thesis
    by (simp add: none Triangle_no_canvas [OF none] Cube_page_no_canvas [OF none]
        World_Cube_no_canvas [OF none] host0_def)
next
  assume "\<exists>cv. getElementById e ''main-canvas'' = Some cv \<and> \<not> webgl cv"
  then obtain cv where some: "getElementById e ''main-canvas'' = Some cv" and no: "\<not> webgl cv"
    by blast
  show ?thesis
    by (simp add: some Triangle_no_webgl [OF some no] Cube_page_no_webgl [OF some no]
        World_Cube_no_webgl [OF some no] host0_def)
qed

theorem C7_witness:
  "getElementById env_no_webgl ''main-canvas'' = Some (canvas_300x150\<lparr>webgl := False\<rparr>)
   \<and> webgl (canvas_300x150\<lparr>webgl := False\<rparr>) = False
   \<and> fst (Triangle env_no_webgl) = Inl TypeError
   \<and> events (snd (Triangle env_no_webgl)) =
       [ConsoleLog (LogCanvas (Some (canvas_300x150\<lparr>webgl := False\<rparr>))), Alert ''no webgl'']
   \<and> events (snd (Cube_page env_no_webgl 2)) = [Alert ''no webgl'']
   \<and> getElementById env_no_canvas ''main-canvas'' = None
   \<and> fst (World_Cube env_no_canvas) = Inl TypeError
   \<and> events (snd (Triangle env_no_canvas)) = [ConsoleLog (LogCanvas None)]"
proof -
  have some: "getElementById env_no_webgl ''main-canvas'' = Some (canvas_300x150\<lparr>webgl := False\<rparr>)"
    by (simp add: env_no_webgl_def)
  have no: "\<not> webgl (canvas_300x150\<lparr>webgl := False\<rparr>)"
    by simp
  have none: "getElementById env_no_canvas ''main-canvas'' = None"
    by (simp add: env_no_canvas_def)
  have pre1: "getElementById env_no_webgl ''main-canvas'' = None
         \<or> (\<exists>cv. getElementById env_no_webgl ''main-canvas'' = Some cv \<and> \<not> webgl cv)"
    using some no by blast
  have pre2: "getElementById env_no_canvas ''main-canvas'' = None
         \<or> (\<exists>cv. getElementById env_no_canvas ''main-canvas'' = Some cv \<and> \<not> webgl cv)"
    using none by blast
  note a = C7_no_context_no_rendering [OF pre1, of 2]
  note b = C7_no_context_no_rendering [OF pre2, of 2]
  have "fst (Triangle env_no_webgl) = Inl TypeError"
    using a by blast
  moreover have "events (snd (Triangle env_no_webgl)) =
       [ConsoleLog (LogCanvas (Some (canvas_300x150\<lparr>webgl := False\<rparr>))), Alert ''no webgl'']
     \<and> events (snd (Cube_page env_no_webgl 2)) = [Alert ''no webgl'']"
    using a some by blast
  moreover have "fst (World_Cube env_no_canvas) = Inl TypeError"
    using b by blast
  moreover have "events (snd (Triangle env_no_canvas)) = [ConsoleLog (LogCanvas None)]"
    using b none by blast
  ultimately show ?thesis
    using some none by simp
qed

lemma env_compile_fails_canvas:
  "getElementById env_compile_fails ''main-canvas'' = Some canvas_300x150"
  by (simp add: env_compile_fails_def env_ok_def)

lemma compile_trace_fails:
  "compile_trace env_compile_fails s =
     [GL (CompileShader s), GL (GetShaderParameter_COMPILE_STATUS s),
      GL (GetShaderInfoLog s), ConsoleLog (LogText ''ERROR: 0:1'')]"
  by (simp add: compile_trace_def env_compile_fails_def)

lemma Triangle_events:
  assumes "getElementById e ''main-canvas'' = Some cv" and "webgl cv"
  shows "events (snd (Triangle e)) =
    [ConsoleLog (LogCanvas (Some cv)),
     GL (ClearColor [0.5, 0.5, 0.9, 1.0]),
     GL (Clear [COLOR_BUFFER_BIT]),
     GL (CreateShader (Some VERTEX_SHADER)),
     GL (CreateShader (Some FRAGMENT_SHADER)),
     GL (ShaderSource (Some 0) vertexShaderTxt),
     GL (ShaderSource (Some 1) fragmentShaderTxt)] @
    compile_trace e (Some 0) @
    compile_trace e (Some 1) @
    [GL CreateProgram,
     GL (AttachShader 2 (Some 0)), GL (AttachShader 2 (Some 1)),
     GL (LinkProgram 2),
     GL (DetachShader 2 (Some 0)), GL (DetachShader 2 (Some 1)),
     GL (ValidateProgram 2),
     GL CreateBuffer, GL (BindBuffer ARRAY_BUFFER 3),
     GL (BufferData ARRAY_BUFFER (new_Float32Array (map Num triangleVert)) STATIC_DRAW),
     GL (GetAttribLocation 2 ''vertPosition''),
     GL (GetAttribLocation 2 ''vertColor''),
     GL (VertexAttribPointer (AttribLocation 2 ''vertPosition'') 2 FLOAT False
          (5 * BYTES_PER_ELEMENT) 0),
     GL (VertexAttribPointer (AttribLocation 2 ''vertColor'') 3 FLOAT False
          (5 * BYTES_PER_ELEMENT) (2 * BYTES_PER_ELEMENT)),
     GL (EnableVertexAttribArray (AttribLocation 2 ''vertPosition'')),
     GL (EnableVertexAttribArray (AttribLocation 2 ''vertColor'')),
     GL (UseProgram 2),
     GL (DrawArrays TRIANGLES 0 6)]"
    and "fst (Triangle e) = Inr ()"
  using assms
  by (simp_all add: Triangle_def compile_and_check_eq host_defs Let_def split_def Suc_Suc_0)

text \<open>
  C6 on the code. On a context where no shader compiles, the triangle program and the
  single-cube program write the info log of each shader to the console and go on to
  attach the shaders and link the program. The two-cube program goes on as well, but
  \<open>World.loadShader\<close> neither asks for the compile status nor for the info log: its
  trace is the one of a context where every shader compiles, and nothing is written to
  the console.
\<close>

theorem C6_World_reports_no_compile_failure:
  "\<not> compile_status env_compile_fails (Some 1)
   \<and> shader_info_log env_compile_fails (Some 1) = ''ERROR: 0:1''
   \<and> filter is_ConsoleLog (events (snd (World_Cube env_compile_fails))) = []
   \<and> events (snd (World_Cube env_compile_fails)) = events (snd (World_Cube env_ok))
   \<and> fst (World_Cube env_compile_fails) = fst (World_Cube env_ok)
   \<and> filter is_ConsoleLog (events (snd (Triangle env_compile_fails))) =
       [ConsoleLog (LogCanvas (Some canvas_300x150)),
        ConsoleLog (LogText ''ERROR: 0:1''), ConsoleLog (LogText ''ERROR: 0:1'')]
   \<and> fst (Triangle env_compile_fails) = Inr ()
   \<and> filter is_ConsoleLog (events (snd (Cube_page env_compile_fails 2))) =
       [ConsoleLog (LogText ''ERROR: 0:1''), ConsoleLog (LogText ''ERROR: 0:1'')]
   \<and> drop 16 (take 20 (events (snd (Cube_page env_compile_fails 2)))) =
       [GL CreateProgram, GL (AttachShader 2 (Some 0)), GL (AttachShader 2 (Some 1)),
        GL (LinkProgram 2)]
   \<and> drop 7 (take 14 (events (snd (World_Cube env_compile_fails)))) =
       [GL (CompileShader (Some 1)), GL (AttachShader 0 (Some 1)),
        GL (CreateShader (Some FRAGMENT_SHADER)),
        GL (ShaderSource (Some 2) fragmentShaderTxt),
        GL (CompileShader (Some 2)), GL (AttachShader 0 (Some 2)), GL (LinkProgram 0)]"
  by (simp add: World_Cube_events [OF env_compile_fails_canvas webgl_canvas_300x150]
      World_Cube_events [OF env_ok_canvas webgl_canvas_300x150]
      World_Cube_fst [OF env_compile_fails_canvas webgl_canvas_300x150]
      World_Cube_fst [OF env_ok_canvas webgl_canvas_300x150]
      Triangle_events [OF env_compile_fails_canvas webgl_canvas_300x150]
      Cube_page_events [OF env_compile_fails_canvas webgl_canvas_300x150]
      compile_trace_fails)
    (simp add: env_compile_fails_def)


section \<open>The aspect ratio of the projection\<close>

lemma env_stretched_canvas:
  "getElementById env_stretched ''main-canvas'' =
     Some (canvas_300x150\<lparr>clientWidth := 600, clientHeight := 600\<rparr>)"
  by (simp add: env_stretched_def env_ok_def)

lemma toRadian_45: "toRadian 45 = pi / 4"
  by (simp add: toRadian_def)

lemma tan_pi_8_pos: "0 < tan (pi / 8)"
  by (rule tan_gt_zero) simp_all

lemma perspective_aspect:
  "mat4_perspective out (pi / 4) a n f ! 0 = 1 / tan (pi / 8) / a"
  by (simp add: mat4_perspective_def Let_def)

lemma perspective_differs:
  assumes "1 / a \<noteq> 1 / b"
  shows "mat4_perspective out (pi / 4) a n f \<noteq> mat4_perspective out (pi / 4) b n f"
proof
  assume "mat4_perspective out (pi / 4) a n f = mat4_perspective out (pi / 4) b n f"
  then have "mat4_perspective out (pi / 4) a n f ! 0 = mat4_perspective out (pi / 4) b n f ! 0"
    by simp
  then have "1 / tan (pi / 8) * (1 / a) = 1 / tan (pi / 8) * (1 / b)"
    by (simp add: perspective_aspect)
  then have "1 / a = 1 / b"
    using tan_pi_8_pos by simp
  with assms show False
    by simp
qed

text \<open>
  C9 on the code. The field of view is 45 degrees in radians, the near plane 0.1 and the
  far plane 1000 in both cube programs. The single-cube program divides \<open>clientWidth\<close>
  by \<open>clientHeight\<close>. The two-cube program divides \<open>width\<close> by \<open>clientHeight\<close>: on a
  canvas whose drawing buffer is 300 by 150 and whose box on the page is 600 by 600 it
  builds the projection with the aspect ratio 300 / 600, which is the ratio of neither
  pair of measurements, and the matrix differs from the one of either pair.
\<close>

theorem C9_World_mixes_width_and_clientHeight:
  "toRadian 45 = pi / 4
   \<and> uniform_store (snd (World_Cube env_stretched)) (UniformLocation 0 ''mProj'') =
       Some (mat4_perspective mat4_create (toRadian 45) (300 / 600) 0.1 1000.0)
   \<and> mat4_perspective mat4_create (toRadian 45) (300 / 600) 0.1 1000.0 \<noteq>
       mat4_perspective mat4_create (toRadian 45) (300 / 150) 0.1 1000.0
   \<and> mat4_perspective mat4_create (toRadian 45) (300 / 600) 0.1 1000.0 \<noteq>
       mat4_perspective mat4_create (toRadian 45) (600 / 600) 0.1 1000.0
   \<and> uniform_store (snd (Cube_page env_stretched 2)) (UniformLocation 2 ''mProj'') =
       Some (mat4_perspective mat4_create (toRadian 45) (600 / 600) 0.1 1000.0)
   \<and> uniform_store (snd (World_Cube env_ok)) (UniformLocation 0 ''mProj'') =
       Some (mat4_perspective mat4_create (toRadian 45) (300 / 150) 0.1 1000.0)
   \<and> uniform_store (snd (Cube_page env_ok 2)) (UniformLocation 2 ''mProj'') =
       Some (mat4_perspective mat4_create (toRadian 45) (300 / 150) 0.1 1000.0)"
proof -
  have w: "webgl (canvas_300x150\<lparr>clientWidth := 600, clientHeight := 600\<rparr>)"
    by (simp add: canvas_300x150_def)
  have d1: "mat4_perspective mat4_create (pi / 4) (300 / 600) 0.1 1000.0 \<noteq>
       mat4_perspective mat4_create (pi / 4) (300 / 150) 0.1 1000.0"
    by (rule perspective_differs) simp
  have d2: "mat4_perspective mat4_create (pi / 4) (300 / 600) 0.1 1000.0 \<noteq>
       mat4_perspective mat4_create (pi / 4) (600 / 600) 0.1 1000.0"
    by (rule perspective_differs) simp
  show ?thesis
    unfolding toRadian_45
    using d1 d2
    by (simp add: World_Cube_uniforms [OF env_stretched_canvas w]
        Cube_page_uniforms [OF env_stretched_canvas w]
        World_Cube_uniforms [OF env_ok_canvas webgl_canvas_300x150]
        Cube_page_uniforms [OF env_ok_canvas webgl_canvas_300x150]
        toRadian_45 canvas_300x150_def)
qed

end
